theory Spec2Isabelle
  imports Complex_Main
begin

section \<open>Cut planes of a volume scene\<close>

text \<open>
  The development embeds \<^verbatim>\<open>ensemble/volren/volume_cut_planes.py\<close>: the class
  \<^verbatim>\<open>VolumeCutPlanes\<close> with its three image-plane widgets, the slicer opacity and the
  brightness/contrast mapping of the widgets' lookup table.

  Objects of the visualization toolkit are mutable and shared, so they live in an explicit
  store and the Python attributes hold references into it. Every function takes the store
  and returns the updated one. Python floats are binary64 numbers with
  their infinities and NaN, and every arithmetic operation rounds its exact result.
\<close>

subsection \<open>Python floats\<close>

text \<open>
  A float is a binary64 number, an infinity or NaN. A finite float is kept as the real
  number it stands for (so \<^verbatim>\<open>-0.0\<close> and \<^verbatim>\<open>0.0\<close> are the same value).
\<close>

datatype pyfloat = Finite real | PosInf | NegInf | NaN

text \<open>
  \<open>bexp x\<close> is the binary exponent of \<open>x\<close>, that is
  \<open>2 powi bexp x \<le> \<bar>x\<bar> < 2 powi (bexp x + 1)\<close>; \<open>rhe\<close> rounds a real to the nearest integer, a
  tie to the even one. \<open>rnd64\<close> rounds a real to the nearest number of the binary64 grid:
  53 significant bits from the smallest normal number \<open>2 powi (- 1022)\<close> on, multiples of
  \<open>2 powi (- 1074)\<close> below it (the subnormal numbers). \<open>round64\<close> is the float an operation
  returns for the exact result \<open>x\<close>: the rounded number, or an infinity when that is
  \<open>huge\<close> or more in size.
\<close>

function bexp :: "real \<Rightarrow> int" where
  "bexp x = (if x = 0 then 0
             else if 2 \<le> \<bar>x\<bar> then bexp (x / 2) + 1
             else if \<bar>x\<bar> < 1 then bexp (2 * x) - 1
             else 0)"
  by pat_completeness auto
termination
proof (relation "measure (\<lambda>x. nat \<bar>\<lfloor>log 2 \<bar>x\<bar>\<rfloor>\<bar>)")
  show "wf (measure (\<lambda>x. nat \<bar>\<lfloor>log 2 \<bar>x\<bar>\<rfloor>\<bar>))"
    by simp
next
  fix x :: real
  assume x: "x \<noteq> 0" and big: "2 \<le> \<bar>x\<bar>"
  have "log 2 \<bar>x / 2\<bar> = log 2 \<bar>x\<bar> - 1"
    using x by (simp add: log_divide)
  moreover have "1 \<le> log 2 \<bar>x\<bar>"
    using big x by (simp add: le_log_iff)
  ultimately show "(x / 2, x) \<in> measure (\<lambda>x. nat \<bar>\<lfloor>log 2 \<bar>x\<bar>\<rfloor>\<bar>)"
    by (simp; linarith)
next
  fix x :: real
  assume x: "x \<noteq> 0" and small: "\<not> 2 \<le> \<bar>x\<bar>" "\<bar>x\<bar> < 1"
  have "log 2 \<bar>2 * x\<bar> = log 2 \<bar>x\<bar> + 1"
    using x by (simp add: log_mult abs_mult)
  moreover have "log 2 \<bar>x\<bar> < 0"
    using small x by simp
  moreover from this have "\<lfloor>log 2 \<bar>x\<bar>\<rfloor> < 0"
    by simp
  ultimately show "(2 * x, x) \<in> measure (\<lambda>x. nat \<bar>\<lfloor>log 2 \<bar>x\<bar>\<rfloor>\<bar>)"
    by (simp; linarith)
qed

declare bexp.simps [simp del]

definition rhe :: "real \<Rightarrow> int" where
  "rhe x = (let f = \<lfloor>x\<rfloor>; d = x - of_int f
            in if d < 1 / 2 then f else if 1 / 2 < d then f + 1
               else if even f then f else f + 1)"

definition rnd64 :: "real \<Rightarrow> real" where
  "rnd64 x = (let u = 2 powi (max (bexp x) (- 1022) - 52) in of_int (rhe (x / u)) * u)"

definition huge :: real where
  "huge = 2 ^ 1024"

definition round64 :: "real \<Rightarrow> pyfloat" where
  "round64 x =
     (let r = rnd64 x
      in if huge \<le> r then PosInf else if r \<le> - huge then NegInf else Finite r)"

text \<open>The reals that are binary64 numbers.\<close>

definition is_double :: "real \<Rightarrow> bool" where
  "is_double x \<longleftrightarrow> round64 x = Finite x"

text \<open>
  The operations on floats that the source uses: negation, \<^verbatim>\<open>+\<close>, \<^verbatim>\<open>-\<close>, \<^verbatim>\<open>*\<close>, \<^verbatim>\<open>/\<close> and
  \<^verbatim>\<open>pow\<close>, with the results IEEE 754 gives for infinities and NaN. On finite floats each
  is the exact result rounded (the \<^verbatim>\<open>pow\<close> of the C library is taken as correctly
  rounded). The source divides by \<^verbatim>\<open>2.0\<close> only and raises only \<^verbatim>\<open>2\<close> to a power: a zero
  divisor, for which \<open>fdiv\<close> gives NaN, and a base below \<open>1\<close> do not arise.
\<close>

fun fneg :: "pyfloat \<Rightarrow> pyfloat" where
  "fneg (Finite x) = Finite (- x)"
| "fneg PosInf = NegInf"
| "fneg NegInf = PosInf"
| "fneg NaN = NaN"

fun fadd :: "pyfloat \<Rightarrow> pyfloat \<Rightarrow> pyfloat" where
  "fadd (Finite x) (Finite y) = round64 (x + y)"
| "fadd NaN b = NaN"
| "fadd a NaN = NaN"
| "fadd PosInf NegInf = NaN"
| "fadd NegInf PosInf = NaN"
| "fadd PosInf b = PosInf"
| "fadd a PosInf = PosInf"
| "fadd NegInf b = NegInf"
| "fadd a NegInf = NegInf"

definition fsub :: "pyfloat \<Rightarrow> pyfloat \<Rightarrow> pyfloat" where
  "fsub a b = fadd a (fneg b)"

fun fmul :: "pyfloat \<Rightarrow> pyfloat \<Rightarrow> pyfloat" where
  "fmul (Finite x) (Finite y) = round64 (x * y)"
| "fmul NaN b = NaN"
| "fmul a NaN = NaN"
| "fmul PosInf (Finite y) = (if y = 0 then NaN else if 0 < y then PosInf else NegInf)"
| "fmul NegInf (Finite y) = (if y = 0 then NaN else if 0 < y then NegInf else PosInf)"
| "fmul (Finite x) PosInf = (if x = 0 then NaN else if 0 < x then PosInf else NegInf)"
| "fmul (Finite x) NegInf = (if x = 0 then NaN else if 0 < x then NegInf else PosInf)"
| "fmul PosInf PosInf = PosInf"
| "fmul PosInf NegInf = NegInf"
| "fmul NegInf PosInf = NegInf"
| "fmul NegInf NegInf = PosInf"

fun fdiv :: "pyfloat \<Rightarrow> pyfloat \<Rightarrow> pyfloat" where
  "fdiv (Finite x) (Finite y) = (if y = 0 then NaN else round64 (x / y))"
| "fdiv NaN b = NaN"
| "fdiv a NaN = NaN"
| "fdiv PosInf (Finite y) = (if 0 \<le> y then PosInf else NegInf)"
| "fdiv NegInf (Finite y) = (if 0 \<le> y then NegInf else PosInf)"
| "fdiv (Finite x) b = Finite 0"
| "fdiv a b = NaN"

fun fpow :: "real \<Rightarrow> pyfloat \<Rightarrow> pyfloat" where
  "fpow x (Finite y) = round64 (x powr y)"
| "fpow x PosInf = PosInf"
| "fpow x NegInf = Finite 0"
| "fpow x NaN = NaN"

text \<open>The comparisons \<^verbatim>\<open><=\<close>, \<^verbatim>\<open><\<close> and \<^verbatim>\<open>!=\<close> of floats: NaN compares unequal to everything.\<close>

fun fle :: "pyfloat \<Rightarrow> pyfloat \<Rightarrow> bool" where
  "fle (Finite x) (Finite y) \<longleftrightarrow> x \<le> y"
| "fle NaN b \<longleftrightarrow> False"
| "fle a NaN \<longleftrightarrow> False"
| "fle NegInf b \<longleftrightarrow> True"
| "fle a PosInf \<longleftrightarrow> True"
| "fle a b \<longleftrightarrow> False"

fun flt :: "pyfloat \<Rightarrow> pyfloat \<Rightarrow> bool" where
  "flt (Finite x) (Finite y) \<longleftrightarrow> x < y"
| "flt NaN b \<longleftrightarrow> False"
| "flt a NaN \<longleftrightarrow> False"
| "flt PosInf b \<longleftrightarrow> False"
| "flt a NegInf \<longleftrightarrow> False"
| "flt a b \<longleftrightarrow> True"

definition fne :: "pyfloat \<Rightarrow> pyfloat \<Rightarrow> bool" where
  "fne a b \<longleftrightarrow> a = NaN \<or> b = NaN \<or> a \<noteq> b"

subsection \<open>Toolkit objects\<close>

type_synonym ref = nat

text \<open>The \<^verbatim>\<open>scalar_lut_manager\<close> of a module manager.\<close>

record lut_manager =
  lut_mode :: string
  use_default_range :: bool
  default_data_range :: "pyfloat \<times> pyfloat"
  data_range :: "pyfloat \<times> pyfloat"

text \<open>
  A top-level data node of the scene (\<^verbatim>\<open>child\<close> in the source): its \<^verbatim>\<open>outputs\<close> are
  references to data sets; \<open>node_lut\<close> is the lookup-table manager of the node's module
  manager, which every module placed under the node gets.
\<close>

record node =
  outputs :: "ref list"
  node_lut :: ref

record mayavi_scene =
  children :: "node list"

record scene_model =
  mayavi_scene :: mayavi_scene

text \<open>The volume actor: only \<^verbatim>\<open>volume_actor.mapper.input\<close> is read.\<close>

record volume_actor =
  mapper_input :: ref

text \<open>
  An image plane widget: \<open>texture_opacity\<close> is \<^verbatim>\<open>ipw.ipw.texture_plane_property.opacity\<close>,
  \<open>scalar_lut_manager\<close> is \<^verbatim>\<open>ipw.module_manager.scalar_lut_manager\<close>.
\<close>

record plane_widget =
  data_source :: node
  figure :: mayavi_scene
  plane_orientation :: string
  visible :: bool
  texture_opacity :: pyfloat
  scalar_lut_manager :: ref

text \<open>
  The store: the widgets and lookup-table managers by reference, the next free widget
  reference, and the redraw requests (\<^verbatim>\<open>ipw.render()\<close>) in the order they were made.
\<close>

record toolkit =
  widgets :: "ref \<Rightarrow> plane_widget"
  luts :: "ref \<Rightarrow> lut_manager"
  next_widget :: ref
  render_log :: "ref list"

subsection \<open>The class \<^verbatim>\<open>VolumeCutPlanes\<close>\<close>

record cut_planes =
  image_plane_widget_x :: "ref option"
  image_plane_widget_y :: "ref option"
  image_plane_widget_z :: "ref option"
  slicer_alpha :: pyfloat
  cut_brightness :: pyfloat
  cut_contrast :: pyfloat

text \<open>A new object: the widgets are \<^verbatim>\<open>None\<close>, the ranges have their declared defaults.\<close>

definition VolumeCutPlanes :: cut_planes where
  "VolumeCutPlanes =
     \<lparr>image_plane_widget_x = None, image_plane_widget_y = None, image_plane_widget_z = None,
      slicer_alpha = Finite 1, cut_brightness = Finite 0, cut_contrast = Finite 0\<rparr>"

subsection \<open>Toolkit operations\<close>

text \<open>
  An assignment to an attribute of a toolkit object is a field update, and \<^verbatim>\<open>render\<close> is
  recorded in the log. The toolkit's own validation of what it is given is not modelled:
  the opacity of a texture plane has the range \<open>[0, 1]\<close> in the toolkit, which is the range
  the source declares for \<^verbatim>\<open>slicer_alpha\<close>, the only value written to it.
\<close>

definition render :: "ref \<Rightarrow> toolkit \<Rightarrow> toolkit" where
  "render ipw tk = tk\<lparr>render_log := render_log tk @ [ipw]\<rparr>"

definition set_texture_opacity :: "ref \<Rightarrow> pyfloat \<Rightarrow> toolkit \<Rightarrow> toolkit" where
  "set_texture_opacity ipw alpha tk =
     tk\<lparr>widgets := (widgets tk)(ipw := (widgets tk ipw)\<lparr>texture_opacity := alpha\<rparr>)\<rparr>"

definition set_visible :: "ref \<Rightarrow> bool \<Rightarrow> toolkit \<Rightarrow> toolkit" where
  "set_visible ipw v tk =
     tk\<lparr>widgets := (widgets tk)(ipw := (widgets tk ipw)\<lparr>visible := v\<rparr>)\<rparr>"

definition set_lut_mode :: "ref \<Rightarrow> string \<Rightarrow> toolkit \<Rightarrow> toolkit" where
  "set_lut_mode lm m tk = tk\<lparr>luts := (luts tk)(lm := (luts tk lm)\<lparr>lut_mode := m\<rparr>)\<rparr>"

definition set_use_default_range :: "ref \<Rightarrow> bool \<Rightarrow> toolkit \<Rightarrow> toolkit" where
  "set_use_default_range lm v tk =
     tk\<lparr>luts := (luts tk)(lm := (luts tk lm)\<lparr>use_default_range := v\<rparr>)\<rparr>"

definition set_data_range :: "ref \<Rightarrow> pyfloat \<times> pyfloat \<Rightarrow> toolkit \<Rightarrow> toolkit" where
  "set_data_range lm r tk = tk\<lparr>luts := (luts tk)(lm := (luts tk lm)\<lparr>data_range := r\<rparr>)\<rparr>"

text \<open>
  \<^verbatim>\<open>mlab.pipeline.image_plane_widget(data_source, figure=..., plane_orientation=...)\<close>:
  the toolkit makes a new widget under the data source, visible and opaque, and returns it.
\<close>

definition image_plane_widget ::
  "node \<Rightarrow> mayavi_scene \<Rightarrow> string \<Rightarrow> toolkit \<Rightarrow> ref \<times> toolkit" where
  "image_plane_widget src fig orientation tk =
     (let ipw = next_widget tk
      in (ipw,
          tk\<lparr>widgets := (widgets tk)(ipw :=
                \<lparr>data_source = src, figure = fig, plane_orientation = orientation,
                 visible = True, texture_opacity = Finite 1,
                 scalar_lut_manager = node_lut src\<rparr>),
             next_widget := Suc ipw\<rparr>))"

subsection \<open>Traits notifications\<close>

text \<open>
  \<^verbatim>\<open>_slicer_alpha_changed\<close>: the loop over the tuple of the three widgets, skipping
  \<^verbatim>\<open>None\<close>.
\<close>

fun slicer_alpha_loop :: "pyfloat \<Rightarrow> ref option list \<Rightarrow> toolkit \<Rightarrow> toolkit" where
  "slicer_alpha_loop alpha [] tk = tk"
| "slicer_alpha_loop alpha (None # rest) tk = slicer_alpha_loop alpha rest tk"
| "slicer_alpha_loop alpha (Some ipw # rest) tk =
     slicer_alpha_loop alpha rest (render ipw (set_texture_opacity ipw alpha tk))"

definition slicer_alpha_changed :: "cut_planes \<Rightarrow> pyfloat \<Rightarrow> toolkit \<Rightarrow> toolkit" where
  "slicer_alpha_changed self alpha tk =
     (let image_plane_widgets =
            [image_plane_widget_x self, image_plane_widget_y self, image_plane_widget_z self]
      in slicer_alpha_loop alpha image_plane_widgets tk)"

text \<open>The redraw loop that ends \<^verbatim>\<open>_on_cut_brightness_contrast\<close>.\<close>

fun render_loop :: "ref option list \<Rightarrow> toolkit \<Rightarrow> toolkit" where
  "render_loop [] tk = tk"
| "render_loop (None # rest) tk = render_loop rest tk"
| "render_loop (Some ipw # rest) tk = render_loop rest (render ipw tk)"

text \<open>
  \<^verbatim>\<open>_on_cut_brightness_contrast\<close>: nothing happens while the z widget is \<^verbatim>\<open>None\<close>;
  otherwise the lookup-table manager of the z widget gets the new range and every attached
  widget is redrawn. The arithmetic is that of floats.
\<close>

definition on_cut_brightness_contrast :: "cut_planes \<Rightarrow> toolkit \<Rightarrow> toolkit" where
  "on_cut_brightness_contrast self tk =
     (case image_plane_widget_z self of
        None \<Rightarrow> tk
      | Some plane_widget \<Rightarrow>
          (let lut_manager = scalar_lut_manager (widgets tk plane_widget);
               tk1 = set_use_default_range lut_manager False tk;
               (data_low, data_high) = default_data_range (luts tk1 lut_manager);
               data_level = fdiv (fadd data_low data_high) (Finite 2);
               data_radius = fdiv (fsub data_high data_low) (Finite 2);
               level = fsub data_level (fmul data_radius (cut_brightness self));
               radius = fmul data_radius (fpow 2 (fneg (cut_contrast self)));
               tk2 = set_data_range lut_manager (fsub level radius, fadd level radius) tk1;
               image_plane_widgets =
                 [image_plane_widget_x self, image_plane_widget_y self,
                  image_plane_widget_z self]
           in render_loop image_plane_widgets tk2))"

subsection \<open>Attaching the widgets\<close>

text \<open>
  \<^verbatim>\<open>_find_volume_data_source\<close>: the first child of the scene whose outputs hold the
  input of the volume's mapper, or \<^verbatim>\<open>None\<close>.
\<close>

fun find_child :: "ref \<Rightarrow> node list \<Rightarrow> node option" where
  "find_child volume_image_data [] = None"
| "find_child volume_image_data (child # rest) =
     (if volume_image_data \<in> set (outputs child) then Some child
      else find_child volume_image_data rest)"

definition find_volume_data_source :: "scene_model \<Rightarrow> volume_actor \<Rightarrow> node option" where
  "find_volume_data_source sm va =
     (let volume_image_data = mapper_input va
      in find_child volume_image_data (children (mayavi_scene sm)))"

text \<open>
  \<^verbatim>\<open>setattr(self, name, ipw)\<close> on the three widget traits. The handler
  \<^verbatim>\<open>_on_cut_brightness_contrast\<close> listens to \<^verbatim>\<open>image_plane_widget_z\<close> and runs when that
  trait gets a value that differs from the one it had.
\<close>

definition setattr :: "string \<Rightarrow> ref \<Rightarrow> cut_planes \<times> toolkit \<Rightarrow> cut_planes \<times> toolkit" where
  "setattr name ipw st =
     (let (self, tk) = st
      in if name = ''image_plane_widget_x'' then (self\<lparr>image_plane_widget_x := Some ipw\<rparr>, tk)
         else if name = ''image_plane_widget_y'' then
           (self\<lparr>image_plane_widget_y := Some ipw\<rparr>, tk)
         else if name = ''image_plane_widget_z'' then
           (let self' = self\<lparr>image_plane_widget_z := Some ipw\<rparr>
            in if image_plane_widget_z self = Some ipw then (self', tk)
               else (self', on_cut_brightness_contrast self' tk))
         else (self, tk))"

text \<open>The body of \<^verbatim>\<open>for axis in 'xyz'\<close>, over the characters that are left.\<close>

fun axes_loop ::
  "string \<Rightarrow> node \<Rightarrow> scene_model \<Rightarrow> cut_planes \<times> toolkit \<Rightarrow> cut_planes \<times> toolkit" where
  "axes_loop [] src sm st = st"
| "axes_loop (axis # rest) src sm st =
     (let (self, tk) = st;
          (ipw, tk1) = image_plane_widget src (mayavi_scene sm) (axis # ''_axes'') tk;
          tk2 = set_lut_mode (scalar_lut_manager (widgets tk1 ipw)) ''gray'' tk1;
          tk3 = set_visible ipw False tk2
      in axes_loop rest src sm (setattr (''image_plane_widget_'' @ [axis]) ipw (self, tk3)))"

definition add_actors_to_scene ::
  "scene_model \<Rightarrow> volume_actor \<Rightarrow> cut_planes \<times> toolkit \<Rightarrow> cut_planes \<times> toolkit" where
  "add_actors_to_scene sm va st =
     (case find_volume_data_source sm va of
        None \<Rightarrow> st
      | Some src \<Rightarrow> axes_loop ''xyz'' src sm st)"

subsection \<open>Assigning the range traits\<close>

text \<open>
  \<^verbatim>\<open>slicer_alpha = Range(0.0, 1.0, value=1.0)\<close>, \<^verbatim>\<open>cut_brightness\<close> and
  \<^verbatim>\<open>cut_contrast = Range(-1.0, 1.0, value=0.0)\<close>. The \<^verbatim>\<open>Range\<close> trait type belongs to
  the traits library, which validates an assignment: a value below the lower or above the
  upper bound raises \<^verbatim>\<open>TraitError\<close> and the attribute keeps its value; any other float
  is stored (NaN is neither below nor above a bound) and, when it compares unequal to the
  old value, the listeners of the trait run.
\<close>

datatype error = TraitError

definition set_slicer_alpha ::
  "pyfloat \<Rightarrow> cut_planes \<times> toolkit \<Rightarrow> error + cut_planes \<times> toolkit" where
  "set_slicer_alpha v st =
     (let (self, tk) = st
      in if flt v (Finite 0) \<or> flt (Finite 1) v then Inl TraitError
         else if fne (slicer_alpha self) v then
           (let self' = self\<lparr>slicer_alpha := v\<rparr>
            in Inr (self', slicer_alpha_changed self' v tk))
         else Inr (self, tk))"

definition set_cut_brightness ::
  "pyfloat \<Rightarrow> cut_planes \<times> toolkit \<Rightarrow> error + cut_planes \<times> toolkit" where
  "set_cut_brightness v st =
     (let (self, tk) = st
      in if flt v (Finite (- 1)) \<or> flt (Finite 1) v then Inl TraitError
         else if fne (cut_brightness self) v then
           (let self' = self\<lparr>cut_brightness := v\<rparr>
            in Inr (self', on_cut_brightness_contrast self' tk))
         else Inr (self, tk))"

definition set_cut_contrast ::
  "pyfloat \<Rightarrow> cut_planes \<times> toolkit \<Rightarrow> error + cut_planes \<times> toolkit" where
  "set_cut_contrast v st =
     (let (self, tk) = st
      in if flt v (Finite (- 1)) \<or> flt (Finite 1) v then Inl TraitError
         else if fne (cut_contrast self) v then
           (let self' = self\<lparr>cut_contrast := v\<rparr>
            in Inr (self', on_cut_brightness_contrast self' tk))
         else Inr (self, tk))"

subsection \<open>Notions used to state the properties\<close>

text \<open>The references among a tuple of widget attributes, in order.\<close>

fun attached :: "ref option list \<Rightarrow> ref list" where
  "attached [] = []"
| "attached (None # rest) = attached rest"
| "attached (Some ipw # rest) = ipw # attached rest"

definition image_plane_widgets :: "cut_planes \<Rightarrow> ref option list" where
  "image_plane_widgets self =
     [image_plane_widget_x self, image_plane_widget_y self, image_plane_widget_z self]"


fun range_center :: "pyfloat \<times> pyfloat \<Rightarrow> real option" where
  "range_center (Finite x, Finite y) = Some ((x + y) / 2)"
| "range_center r = None"


text \<open>A float lies in the closed interval between two floats.\<close>

definition in_range :: "pyfloat \<Rightarrow> pyfloat \<Rightarrow> pyfloat \<Rightarrow> bool" where
  "in_range low high v \<longleftrightarrow> fle low v \<and> fle v high"

text \<open>
  Radius of the default data range, and level and radius after brightness and contrast, as
  \<^verbatim>\<open>_on_cut_brightness_contrast\<close> computes them.
\<close>

definition data_radius :: "pyfloat \<Rightarrow> pyfloat \<Rightarrow> pyfloat" where
  "data_radius data_low data_high = fdiv (fsub data_high data_low) (Finite 2)"

definition adjusted_level :: "pyfloat \<Rightarrow> pyfloat \<Rightarrow> pyfloat \<Rightarrow> pyfloat" where
  "adjusted_level data_low data_high b =
     fsub (fdiv (fadd data_low data_high) (Finite 2)) (fmul (data_radius data_low data_high) b)"

definition adjusted_radius :: "pyfloat \<Rightarrow> pyfloat \<Rightarrow> pyfloat \<Rightarrow> pyfloat" where
  "adjusted_radius data_low data_high c =
     fmul (data_radius data_low data_high) (fpow 2 (fneg c))"

text \<open>The lookup-table manager that \<^verbatim>\<open>_on_cut_brightness_contrast\<close> works on.\<close>

definition z_lut_manager :: "cut_planes \<Rightarrow> toolkit \<Rightarrow> ref option" where
  "z_lut_manager self tk =
     map_option (\<lambda>ipw. scalar_lut_manager (widgets tk ipw)) (image_plane_widget_z self)"

subsection \<open>Sample objects\<close>

definition sample_lut :: lut_manager where
  "sample_lut =
     \<lparr>lut_mode = ''blue-red'', use_default_range = True,
      default_data_range = (Finite 0, Finite 255), data_range = (Finite 0, Finite 255)\<rparr>"

definition sample_node :: node where
  "sample_node = \<lparr>outputs = [7], node_lut = 0\<rparr>"

definition sample_scene :: scene_model where
  "sample_scene = \<lparr>mayavi_scene = \<lparr>children = [\<lparr>outputs = [], node_lut = 1\<rparr>, sample_node]\<rparr>\<rparr>"

definition sample_widget :: plane_widget where
  "sample_widget =
     \<lparr>data_source = sample_node, figure = mayavi_scene sample_scene,
      plane_orientation = ''z_axes'', visible = False, texture_opacity = Finite 1,
      scalar_lut_manager = 0\<rparr>"

definition sample_toolkit :: toolkit where
  "sample_toolkit =
     \<lparr>widgets = (\<lambda>_. sample_widget), luts = (\<lambda>_. sample_lut), next_widget = 0,
      render_log = []\<rparr>"

text \<open>An object with the three widgets attached, and one with only the y widget.\<close>

definition sample_attached :: cut_planes where
  "sample_attached =
     VolumeCutPlanes\<lparr>image_plane_widget_x := Some 0, image_plane_widget_y := Some 1,
       image_plane_widget_z := Some 2\<rparr>"

definition sample_partial :: cut_planes where
  "sample_partial = VolumeCutPlanes\<lparr>image_plane_widget_y := Some 1\<rparr>"

text \<open>
  The floats \<^verbatim>\<open>0.1\<close> and \<^verbatim>\<open>0.3\<close>, and a toolkit whose lookup tables have them as
  default data range.
\<close>

definition tenth :: real where
  "tenth = 3602879701896397 / 2 ^ 55"

definition three_tenths :: real where
  "three_tenths = 5404319552844595 / 2 ^ 54"

definition float_toolkit :: toolkit where
  "float_toolkit =
     sample_toolkit\<lparr>luts :=
       (\<lambda>_. sample_lut\<lparr>default_data_range := (Finite tenth, Finite three_tenths)\<rparr>)\<rparr>"

text \<open>
  The largest float \<^verbatim>\<open>1.7976931348623157e308\<close>, and a toolkit whose lookup tables have
  the default data range from its negative to itself.
\<close>

definition max_double :: real where
  "max_double = 2 ^ 1024 - 2 ^ 971"

definition wide_toolkit :: toolkit where
  "wide_toolkit =
     sample_toolkit\<lparr>luts :=
       (\<lambda>_. sample_lut\<lparr>default_data_range := (Finite (- max_double), Finite max_double)\<rparr>)\<rparr>"

text \<open>The attached object with brightness \<open>1 / 2\<close> and contrast \<open>1\<close>.\<close>

definition sample_adjusted :: cut_planes where
  "sample_adjusted =
     sample_attached\<lparr>cut_brightness := Finite (1 / 2), cut_contrast := Finite 1\<rparr>"

section \<open>Properties\<close>

subsection \<open>Looking up the data source\<close>

lemma find_child_None:
  "find_child d cs = None \<longleftrightarrow> (\<forall>child \<in> set cs. d \<notin> set (outputs child))"
  by (induction cs) auto

lemma find_volume_data_source_None:
  "find_volume_data_source sm va = None \<longleftrightarrow>
     (\<forall>child \<in> set (children (mayavi_scene sm)). mapper_input va \<notin> set (outputs child))"
  by (simp add: find_volume_data_source_def find_child_None)

text \<open>
  C4. When no top-level data node of the scene has the input of the volume's mapper among
  its outputs, \<^verbatim>\<open>add_actors_to_scene\<close> takes the early return: it gives back the object
  and the toolkit as they were, so the three widget attributes keep their values, and
  attributes that were \<^verbatim>\<open>None\<close> still are.
\<close>

theorem add_actors_to_scene_absent:
  assumes "\<forall>child \<in> set (children (mayavi_scene sm)). mapper_input va \<notin> set (outputs child)"
  shows "add_actors_to_scene sm va (self, tk) = (self, tk)"
proof -
  from assms have "find_volume_data_source sm va = None"
    by (simp only: find_volume_data_source_None)
  then show ?thesis
    by (simp add: add_actors_to_scene_def)
qed

theorem add_actors_to_scene_absent_witness:
  "find_volume_data_source sample_scene \<lparr>mapper_input = 3\<rparr> = None \<and>
   image_plane_widgets
     (fst (add_actors_to_scene sample_scene \<lparr>mapper_input = 3\<rparr> (VolumeCutPlanes, sample_toolkit)))
     = [None, None, None]"
proof -
  have h: "\<forall>child \<in> set (children (mayavi_scene sample_scene)).
      mapper_input \<lparr>mapper_input = 3\<rparr> \<notin> set (outputs child)"
    by (simp add: sample_scene_def sample_node_def)
  show ?thesis
    using h add_actors_to_scene_absent [OF h, of VolumeCutPlanes sample_toolkit]
    by (simp add: image_plane_widgets_def VolumeCutPlanes_def find_volume_data_source_None)
qed

subsection \<open>Attachment is all or nothing\<close>

lemma setattr_x:
  "setattr ''image_plane_widget_x'' ipw (self, tk) = (self\<lparr>image_plane_widget_x := Some ipw\<rparr>, tk)"
  by (simp add: setattr_def)

lemma setattr_y:
  "setattr ''image_plane_widget_y'' ipw (self, tk) = (self\<lparr>image_plane_widget_y := Some ipw\<rparr>, tk)"
  by (simp add: setattr_def)

lemma setattr_z:
  "fst (setattr ''image_plane_widget_z'' ipw (self, tk)) = self\<lparr>image_plane_widget_z := Some ipw\<rparr>"
  by (simp add: setattr_def Let_def)

lemma next_widget_on_cut_brightness_contrast:
  "next_widget (on_cut_brightness_contrast self tk) = next_widget tk"
proof -
  have r: "next_widget (render_loop hs t) = next_widget t" for hs t
    by (induction hs t rule: render_loop.induct) (simp_all add: render_def)
  show ?thesis
    by (simp add: on_cut_brightness_contrast_def Let_def r set_data_range_def
        set_use_default_range_def split: option.split prod.split)
qed

lemma axes_loop_xyz:
  "fst (axes_loop ''xyz'' src sm (self, tk)) =
     self\<lparr>image_plane_widget_x := Some (next_widget tk),
          image_plane_widget_y := Some (Suc (next_widget tk)),
          image_plane_widget_z := Some (Suc (Suc (next_widget tk)))\<rparr>"
  by (simp add: Let_def image_plane_widget_def set_lut_mode_def set_visible_def
      setattr_x setattr_y setattr_z split_beta)

text \<open>
  C5. Starting with the three widget attributes \<^verbatim>\<open>None\<close>, one call of
  \<^verbatim>\<open>add_actors_to_scene\<close> either finds no data source and leaves the three attributes
  \<^verbatim>\<open>None\<close>, or finds one and sets all three, to the three widgets the toolkit has just
  made. No call leaves some attributes set and others not.
\<close>

theorem add_actors_to_scene_all_or_none:
  assumes "image_plane_widgets self = [None, None, None]"
  shows "(find_volume_data_source sm va = None \<and>
          image_plane_widgets (fst (add_actors_to_scene sm va (self, tk))) = [None, None, None]) \<or>
         (find_volume_data_source sm va \<noteq> None \<and>
          image_plane_widgets (fst (add_actors_to_scene sm va (self, tk))) =
            [Some (next_widget tk), Some (Suc (next_widget tk)),
             Some (Suc (Suc (next_widget tk)))])"
proof (cases "find_volume_data_source sm va")
  case None
  with assms show ?thesis
    by (simp add: add_actors_to_scene_def)
next
  case (Some src)
  then have "fst (add_actors_to_scene sm va (self, tk)) = fst (axes_loop ''xyz'' src sm (self, tk))"
    by (simp add: add_actors_to_scene_def)
  with Some show ?thesis
    by (simp only: axes_loop_xyz) (simp add: image_plane_widgets_def)
qed

theorem add_actors_to_scene_all_or_none_witness:
  "image_plane_widgets VolumeCutPlanes = [None, None, None] \<and>
   find_volume_data_source sample_scene \<lparr>mapper_input = 7\<rparr> = Some sample_node \<and>
   image_plane_widgets
     (fst (add_actors_to_scene sample_scene \<lparr>mapper_input = 7\<rparr> (VolumeCutPlanes, sample_toolkit)))
     = [Some 0, Some 1, Some 2]"
proof -
  have h: "image_plane_widgets VolumeCutPlanes = [None, None, None]"
    by (simp add: image_plane_widgets_def VolumeCutPlanes_def)
  have f: "find_volume_data_source sample_scene \<lparr>mapper_input = 7\<rparr> = Some sample_node"
    by (simp add: find_volume_data_source_def sample_scene_def sample_node_def)
  show ?thesis
    using add_actors_to_scene_all_or_none [OF h, of sample_scene "\<lparr>mapper_input = 7\<rparr>" sample_toolkit] h f
    by (simp add: sample_toolkit_def)
qed

subsection \<open>Opacity of the slices\<close>

lemma slicer_alpha_loop_widgets:
  "widgets (slicer_alpha_loop alpha hs tk) =
     (\<lambda>i. if i \<in> set (attached hs) then (widgets tk i)\<lparr>texture_opacity := alpha\<rparr>
          else widgets tk i)"
  by (induction alpha hs tk rule: slicer_alpha_loop.induct)
    (auto simp add: render_def set_texture_opacity_def fun_eq_iff)

lemma slicer_alpha_loop_render_log:
  "render_log (slicer_alpha_loop alpha hs tk) = render_log tk @ attached hs"
  by (induction alpha hs tk rule: slicer_alpha_loop.induct)
    (simp_all add: render_def set_texture_opacity_def)

lemma slicer_alpha_loop_rest:
  "luts (slicer_alpha_loop alpha hs tk) = luts tk \<and>
   next_widget (slicer_alpha_loop alpha hs tk) = next_widget tk"
  by (induction alpha hs tk rule: slicer_alpha_loop.induct)
    (simp_all add: render_def set_texture_opacity_def)

lemma slicer_alpha_loop_unattached:
  "attached hs = [] \<Longrightarrow> slicer_alpha_loop alpha hs tk = tk"
  by (induction alpha hs tk rule: slicer_alpha_loop.induct) simp_all

lemma slicer_alpha_changed_effect:
  "(\<forall>ipw \<in> set (attached (image_plane_widgets self)).
      texture_opacity (widgets (slicer_alpha_changed self alpha tk) ipw) = alpha) \<and>
   render_log (slicer_alpha_changed self alpha tk) =
     render_log tk @ attached (image_plane_widgets self) \<and>
   (attached (image_plane_widgets self) = [] \<longrightarrow> slicer_alpha_changed self alpha tk = tk)"
  unfolding slicer_alpha_changed_def image_plane_widgets_def Let_def
  by (simp add: slicer_alpha_loop_widgets slicer_alpha_loop_render_log
      slicer_alpha_loop_unattached)

lemma set_attached: "set (attached hs) = {i. Some i \<in> set hs}"
  by (induction hs rule: attached.induct) auto

text \<open>
  C10. \<^verbatim>\<open>_slicer_alpha_changed\<close> is defined for every combination of attached and
  unattached widgets: a widget of the toolkit gets the opacity \<open>alpha\<close> exactly when one of
  the three attributes refers to it, and no other field of it changes; an attribute that is
  \<^verbatim>\<open>None\<close> is skipped; the lookup tables are not touched; the redraw requests are those
  of the attached widgets.
\<close>

theorem slicer_alpha_changed_partial:
  "widgets (slicer_alpha_changed self alpha tk) =
     (\<lambda>i. if Some i \<in> {image_plane_widget_x self, image_plane_widget_y self,
                         image_plane_widget_z self}
          then (widgets tk i)\<lparr>texture_opacity := alpha\<rparr> else widgets tk i) \<and>
   luts (slicer_alpha_changed self alpha tk) = luts tk \<and>
   next_widget (slicer_alpha_changed self alpha tk) = next_widget tk \<and>
   render_log (slicer_alpha_changed self alpha tk) =
     render_log tk @ attached [image_plane_widget_x self, image_plane_widget_y self,
                               image_plane_widget_z self]"
  unfolding slicer_alpha_changed_def Let_def
  by (simp add: slicer_alpha_loop_widgets slicer_alpha_loop_render_log
      slicer_alpha_loop_rest set_attached)

theorem slicer_alpha_changed_partial_witness:
  "slicer_alpha_changed sample_partial (Finite (1 / 4)) sample_toolkit =
     sample_toolkit\<lparr>widgets := (widgets sample_toolkit)(1 := sample_widget\<lparr>texture_opacity := Finite (1 / 4)\<rparr>),
       render_log := [1]\<rparr>"
proof -
  have "widgets (slicer_alpha_changed sample_partial (Finite (1 / 4)) sample_toolkit) =
      (widgets sample_toolkit)(1 := sample_widget\<lparr>texture_opacity := Finite (1 / 4)\<rparr>)"
    using slicer_alpha_changed_partial [of sample_partial "Finite (1 / 4)" sample_toolkit]
    by (auto simp add: sample_partial_def VolumeCutPlanes_def sample_toolkit_def fun_eq_iff)
  moreover have "render_log (slicer_alpha_changed sample_partial (Finite (1 / 4)) sample_toolkit) = [1]"
    using slicer_alpha_changed_partial [of sample_partial "Finite (1 / 4)" sample_toolkit]
    by (simp add: sample_partial_def VolumeCutPlanes_def sample_toolkit_def)
  moreover have "luts (slicer_alpha_changed sample_partial (Finite (1 / 4)) sample_toolkit) = luts sample_toolkit"
    "next_widget (slicer_alpha_changed sample_partial (Finite (1 / 4)) sample_toolkit) = next_widget sample_toolkit"
    using slicer_alpha_changed_partial [of sample_partial "Finite (1 / 4)" sample_toolkit]
    by simp_all
  ultimately show ?thesis
    by (simp add: toolkit.equality)
qed

subsection \<open>Assigning the slicer opacity\<close>

lemma fle_not_flt: "fle a b \<Longrightarrow> \<not> flt b a"
  by (cases a; cases b) simp_all

lemma in_range_accepted: "in_range low high v \<Longrightarrow> \<not> (flt v low \<or> flt high v)"
  by (simp add: in_range_def fle_not_flt)

text \<open>
  C6, amended. Assigning to \<^verbatim>\<open>slicer_alpha\<close> a value \<open>alpha\<close> in \<open>[0, 1]\<close> that differs from
  the value the trait has stores it, sets the texture-plane opacity of every attached
  widget to \<open>alpha\<close> and asks each of them to redraw, once and in the order x, y, z; with no
  widget attached only the trait changes. Assigning the value the trait already has
  changes nothing: no opacity is written and no redraw is asked for. No assignment of a
  value in \<open>[0, 1]\<close> raises.
\<close>

theorem set_slicer_alpha_attached:
  assumes "in_range (Finite 0) (Finite 1) alpha"
  shows "(fne (slicer_alpha self) alpha \<longrightarrow>
           (\<exists>tk'. set_slicer_alpha alpha (self, tk) = Inr (self\<lparr>slicer_alpha := alpha\<rparr>, tk') \<and>
              (\<forall>ipw \<in> set (attached (image_plane_widgets self)).
                 texture_opacity (widgets tk' ipw) = alpha) \<and>
              render_log tk' = render_log tk @ attached (image_plane_widgets self) \<and>
              (attached (image_plane_widgets self) = [] \<longrightarrow> tk' = tk))) \<and>
         (\<not> fne (slicer_alpha self) alpha \<longrightarrow>
            set_slicer_alpha alpha (self, tk) = Inr (self, tk))"
proof -
  have w: "image_plane_widgets (self\<lparr>slicer_alpha := alpha\<rparr>) = image_plane_widgets self"
    by (simp add: image_plane_widgets_def)
  note a = in_range_accepted [OF assms]
  show ?thesis
    using a slicer_alpha_changed_effect [of "self\<lparr>slicer_alpha := alpha\<rparr>" alpha tk]
    by (simp add: set_slicer_alpha_def w Let_def)
qed

theorem set_slicer_alpha_attached_witness:
  "(case set_slicer_alpha (Finite (1 / 2)) (sample_attached, sample_toolkit) of
      Inl e \<Rightarrow> False
    | Inr (self', tk') \<Rightarrow>
        self' = sample_attached\<lparr>slicer_alpha := Finite (1 / 2)\<rparr> \<and>
        texture_opacity (widgets tk' 0) = Finite (1 / 2) \<and>
        texture_opacity (widgets tk' 1) = Finite (1 / 2) \<and>
        texture_opacity (widgets tk' 2) = Finite (1 / 2) \<and>
        render_log tk' = [0, 1, 2]) \<and>
   set_slicer_alpha (Finite (1 / 2)) (VolumeCutPlanes, sample_toolkit) =
     Inr (VolumeCutPlanes\<lparr>slicer_alpha := Finite (1 / 2)\<rparr>, sample_toolkit)"
proof -
  have r: "in_range (Finite 0) (Finite 1) (Finite (1 / 2))"
    by (simp add: in_range_def)
  have a: "attached (image_plane_widgets sample_attached) = [0, 1, 2]"
    by (simp add: image_plane_widgets_def sample_attached_def VolumeCutPlanes_def)
  have n: "attached (image_plane_widgets VolumeCutPlanes) = []"
    by (simp add: image_plane_widgets_def VolumeCutPlanes_def)
  have l: "render_log sample_toolkit = []"
    by (simp add: sample_toolkit_def)
  have f: "fne (slicer_alpha sample_attached) (Finite (1 / 2))"
    "fne (slicer_alpha VolumeCutPlanes) (Finite (1 / 2))"
    by (simp_all add: fne_def sample_attached_def VolumeCutPlanes_def)
  show ?thesis
    using set_slicer_alpha_attached [OF r, of sample_attached sample_toolkit]
      set_slicer_alpha_attached [OF r, of VolumeCutPlanes sample_toolkit] f
    by (auto simp add: a n l)
qed

text \<open>
  C6, as the claim states it, fails: the handler runs only when the value changes. The
  object with the three widgets attached has the slicer opacity \<open>1\<close>; assigning \<open>1\<close> returns
  with the object and the toolkit as they were, so no redraw of the three widgets has been
  asked for.
\<close>

theorem set_slicer_alpha_attached_counterexample:
  "in_range (Finite 0) (Finite 1) (Finite 1) \<and>
   attached (image_plane_widgets sample_attached) = [0, 1, 2] \<and>
   set_slicer_alpha (Finite 1) (sample_attached, sample_toolkit) =
     Inr (sample_attached, sample_toolkit) \<and>
   render_log sample_toolkit = []"
  by (simp add: in_range_def set_slicer_alpha_def fne_def image_plane_widgets_def
      sample_attached_def VolumeCutPlanes_def sample_toolkit_def)

subsection \<open>Range traits\<close>

lemma accepted_in_range:
  "\<not> (flt v low \<or> flt high v) \<Longrightarrow> low \<noteq> NaN \<Longrightarrow> high \<noteq> NaN \<Longrightarrow>
     v = NaN \<or> in_range low high v"
  by (cases v; cases low; cases high) (auto simp add: in_range_def)

text \<open>
  C8, amended. An assignment to \<^verbatim>\<open>slicer_alpha\<close> of a value below \<open>0\<close> or above \<open>1\<close>, or to
  \<^verbatim>\<open>cut_brightness\<close> or \<^verbatim>\<open>cut_contrast\<close> of a value below \<open>-1\<close> or above \<open>1\<close> (an infinity
  included), ends in \<^verbatim>\<open>TraitError\<close>: no handler runs and neither the object nor the
  toolkit changes. A value that is accepted lies inside the bounds or is NaN.
\<close>

theorem range_traits_reject:
  "(flt v (Finite 0) \<or> flt (Finite 1) v \<longrightarrow>
      set_slicer_alpha v (self, tk) = Inl TraitError) \<and>
   (flt v (Finite (- 1)) \<or> flt (Finite 1) v \<longrightarrow>
      set_cut_brightness v (self, tk) = Inl TraitError \<and>
      set_cut_contrast v (self, tk) = Inl TraitError) \<and>
   (\<forall>st'. set_slicer_alpha v (self, tk) = Inr st' \<longrightarrow>
      v = NaN \<or> in_range (Finite 0) (Finite 1) v) \<and>
   (\<forall>st'. set_cut_brightness v (self, tk) = Inr st' \<or> set_cut_contrast v (self, tk) = Inr st' \<longrightarrow>
      v = NaN \<or> in_range (Finite (- 1)) (Finite 1) v)"
proof -
  have a: "v = NaN \<or> in_range (Finite 0) (Finite 1) v" if "\<not> (flt v (Finite 0) \<or> flt (Finite 1) v)"
    using that by (intro accepted_in_range) simp_all
  have b: "v = NaN \<or> in_range (Finite (- 1)) (Finite 1) v"
    if "\<not> (flt v (Finite (- 1)) \<or> flt (Finite 1) v)"
    using that by (intro accepted_in_range) simp_all
  show ?thesis
    using a b
    by (auto simp add: set_slicer_alpha_def set_cut_brightness_def set_cut_contrast_def
        Let_def split: if_splits)
qed

theorem range_traits_reject_witness:
  "set_slicer_alpha (Finite (3 / 2)) (VolumeCutPlanes, sample_toolkit) = Inl TraitError \<and>
   set_cut_brightness (Finite (- 2)) (VolumeCutPlanes, sample_toolkit) = Inl TraitError \<and>
   set_cut_contrast PosInf (VolumeCutPlanes, sample_toolkit) = Inl TraitError \<and>
   set_cut_contrast (Finite (1 / 2)) (VolumeCutPlanes, sample_toolkit) =
     Inr (VolumeCutPlanes\<lparr>cut_contrast := Finite (1 / 2)\<rparr>, sample_toolkit) \<and>
   in_range (Finite (- 1)) (Finite 1) (Finite (1 / 2))"
proof -
  have c: "set_cut_contrast (Finite (1 / 2)) (VolumeCutPlanes, sample_toolkit) =
     Inr (VolumeCutPlanes\<lparr>cut_contrast := Finite (1 / 2)\<rparr>, sample_toolkit)"
    by (simp add: set_cut_contrast_def fne_def VolumeCutPlanes_def on_cut_brightness_contrast_def)
  show ?thesis
    using range_traits_reject [of "Finite (3 / 2)" VolumeCutPlanes sample_toolkit]
      range_traits_reject [of "Finite (- 2)" VolumeCutPlanes sample_toolkit]
      range_traits_reject [of PosInf VolumeCutPlanes sample_toolkit]
      range_traits_reject [of "Finite (1 / 2)" VolumeCutPlanes sample_toolkit] c
    by (simp add: in_range_def)
qed

subsection \<open>Rounding\<close>

text \<open>
  Facts about the rounding of floats: the binary exponent is the one the text above says,
  rounding is odd, monotone and idempotent, and it leaves the numbers of the grid alone.
\<close>

lemma rhe_of_int: "rhe (of_int n) = n"
  by (simp add: rhe_def)

lemma rhe_bounds: "\<lfloor>x\<rfloor> \<le> rhe x \<and> rhe x \<le> \<lfloor>x\<rfloor> + 1"
  by (simp add: rhe_def Let_def)

lemma rhe_mono: "x \<le> y \<Longrightarrow> rhe x \<le> rhe y"
proof -
  assume xy: "x \<le> y"
  then have f: "\<lfloor>x\<rfloor> \<le> \<lfloor>y\<rfloor>" by (rule floor_mono)
  show ?thesis
  proof (cases "\<lfloor>x\<rfloor> = \<lfloor>y\<rfloor>")
    case True
    with xy show ?thesis
      by (auto simp add: rhe_def Let_def)
  next
    case False
    with f have "\<lfloor>x\<rfloor> + 1 \<le> \<lfloor>y\<rfloor>" by simp
    with rhe_bounds [of x] rhe_bounds [of y] show ?thesis by linarith
  qed
qed

lemma bexp_bounds: "x \<noteq> 0 \<Longrightarrow> 2 powi (bexp x) \<le> \<bar>x\<bar> \<and> \<bar>x\<bar> < 2 powi (bexp x + 1)"
proof (induction x rule: bexp.induct)
  case (1 x)
  show ?case
  proof (cases "2 \<le> \<bar>x\<bar>")
    case True
    then have b: "bexp x = bexp (x / 2) + 1"
      using 1(3) by (subst bexp.simps) simp
    have "2 powi (bexp (x / 2)) \<le> \<bar>x / 2\<bar> \<and> \<bar>x / 2\<bar> < 2 powi (bexp (x / 2) + 1)"
      using 1(1) [OF 1(3) True] 1(3) by simp
    then show ?thesis
      by (simp add: b power_int_add)
  next
    case False
    show ?thesis
    proof (cases "\<bar>x\<bar> < 1")
      case True
      then have b: "bexp x = bexp (2 * x) - 1"
        using 1(3) False by (subst bexp.simps) simp
      have "2 powi (bexp (2 * x)) \<le> \<bar>2 * x\<bar> \<and> \<bar>2 * x\<bar> < 2 powi (bexp (2 * x) + 1)"
        using 1(2) [OF 1(3) False True] 1(3) by simp
      then show ?thesis
        by (simp add: b power_int_diff power_int_add abs_mult)
    next
      case n: False
      then have b: "bexp x = 0"
        using 1(3) False by (subst bexp.simps) simp
      show ?thesis using n False by (simp add: b)
    qed
  qed
qed

lemma powi_exp_unique:
  assumes "2 powi e \<le> (a::real)" "a < 2 powi (f + 1)"
  shows "e \<le> f"
proof (rule ccontr)
  assume "\<not> e \<le> f"
  then have "f + 1 \<le> e" by simp
  then have "(2::real) powi (f + 1) \<le> 2 powi e"
    by (intro power_int_increasing) simp_all
  with assms show False by linarith
qed

lemma bexp_eqI:
  assumes "2 powi e \<le> \<bar>x\<bar>" "\<bar>x\<bar> < 2 powi (e + 1)"
  shows "bexp x = e"
proof -
  have "(0::real) < 2 powi e" by simp
  with assms(1) have "0 < \<bar>x\<bar>" by linarith
  then have x: "x \<noteq> 0" by simp
  note b = bexp_bounds [OF x]
  have "e \<le> bexp x" using powi_exp_unique [of e "\<bar>x\<bar>" "bexp x"] assms(1) b by simp
  moreover have "bexp x \<le> e" using powi_exp_unique [of "bexp x" "\<bar>x\<bar>" e] assms(2) b by simp
  ultimately show ?thesis by simp
qed

lemma bexp_minus: "bexp (- x) = bexp x"
proof (cases "x = 0")
  case True then show ?thesis by simp
next
  case False
  then show ?thesis using bexp_bounds [of x] by (intro bexp_eqI) simp_all
qed

lemma rhe_minus: "rhe (- x) = - rhe x"
proof (cases "x \<in> \<int>")
  case True
  then obtain n where "x = of_int n" by (auto elim: Ints_cases)
  then have "- x = of_int (- n)" by simp
  then show ?thesis using \<open>x = of_int n\<close> by (simp only: rhe_of_int)
next
  case False
  then have ne: "x \<noteq> of_int \<lfloor>x\<rfloor>"
    by (metis Ints_of_int)
  then have f: "\<lfloor>- x\<rfloor> = - \<lfloor>x\<rfloor> - 1"
    by (simp add: floor_minus ceiling_altdef)
  have lt: "of_int \<lfloor>x\<rfloor> < x"
    using ne of_int_floor_le [of x] by linarith
  show ?thesis
    using lt by (auto simp add: rhe_def Let_def f)
qed

lemma rnd64_0: "rnd64 0 = 0"
  by (simp add: rnd64_def rhe_def)

lemma rnd64_minus: "rnd64 (- x) = - rnd64 x"
  by (simp add: rnd64_def bexp_minus rhe_minus Let_def)

lemma rnd64_nonneg: "0 \<le> x \<Longrightarrow> 0 \<le> rnd64 x"
proof -
  assume x: "0 \<le> x"
  define u :: real where "u = 2 powi (max (bexp x) (- 1022) - 52)"
  have u: "0 < u" by (simp add: u_def)
  have "0 \<le> x / u" using x u by simp
  then have "rhe 0 \<le> rhe (x / u)" by (rule rhe_mono)
  then have "0 \<le> rhe (x / u)" by (simp add: rhe_def)
  then show ?thesis
    using u by (simp add: rnd64_def Let_def u_def [symmetric])
qed

text \<open>Above the smallest normal number the exponent is the binary exponent.\<close>

lemma rnd64_eval:
  assumes "2 powi e \<le> \<bar>x\<bar>" "\<bar>x\<bar> < 2 powi (e + 1)" "- 1022 \<le> e"
  shows "rnd64 x = of_int (rhe (x / 2 powi (e - 52))) * 2 powi (e - 52)"
  using assms(3) by (simp add: rnd64_def Let_def bexp_eqI [OF assms(1,2)] max_def)

text \<open>Below it the numbers are multiples of \<open>2 powi (- 1074)\<close>.\<close>

lemma rnd64_subnormal:
  assumes "\<bar>x\<bar> < 2 powi (- 1022)"
  shows "rnd64 x = of_int (rhe (x / 2 powi (- 1074))) * 2 powi (- 1074)"
proof (cases "x = 0")
  case True
  then show ?thesis by (simp add: rnd64_0 rhe_def)
next
  case False
  from bexp_bounds [OF False] assms have "2 powi (bexp x) < (2::real) powi (- 1022)"
    by linarith
  have "bexp x < - 1022"
  proof (rule ccontr)
    assume "\<not> bexp x < - 1022"
    then have "(2::real) powi (- 1022) \<le> 2 powi (bexp x)"
      by (intro power_int_increasing) simp_all
    with \<open>2 powi (bexp x) < (2::real) powi (- 1022)\<close> show False by linarith
  qed
  then show ?thesis
    by (simp add: rnd64_def Let_def max_def)
qed

lemma rnd64_pos_bounds:
  assumes "0 < x" "- 1022 \<le> bexp x"
  shows "2 powi (bexp x) \<le> rnd64 x \<and> rnd64 x \<le> 2 powi (bexp x + 1)"
proof -
  define u :: real where "u = 2 powi (bexp x - 52)"
  have u: "0 < u" by (simp add: u_def)
  have x: "x \<noteq> 0" using assms by simp
  note b = bexp_bounds [OF x]
  have lo: "2 powi (bexp x) = of_int (2 ^ 52) * u"
    by (simp add: u_def power_int_diff)
  have hi: "2 powi (bexp x + 1) = of_int (2 ^ 53) * u"
    by (simp add: u_def power_int_diff power_int_add)
  have "of_int (2 ^ 52) \<le> x / u"
    using b assms u by (simp add: lo pos_le_divide_eq)
  then have l: "2 ^ 52 \<le> rhe (x / u)"
    using rhe_mono [of "of_int (2 ^ 52)" "x / u"] by (simp only: rhe_of_int)
  have "x / u \<le> of_int (2 ^ 53)"
    using b assms u by (simp add: hi pos_divide_le_eq)
  then have h: "rhe (x / u) \<le> 2 ^ 53"
    using rhe_mono [of "x / u" "of_int (2 ^ 53)"] by (simp only: rhe_of_int)
  have r: "rnd64 x = of_int (rhe (x / u)) * u"
    using assms(2) by (simp add: rnd64_def u_def Let_def max_def)
  have "of_int (2 ^ 52) * u \<le> of_int (rhe (x / u)) * u"
    using l u by (intro mult_right_mono) (simp_all only: of_int_le_iff less_imp_le)
  moreover have "of_int (rhe (x / u)) * u \<le> of_int (2 ^ 53) * u"
    using h u by (intro mult_right_mono) (simp_all only: of_int_le_iff less_imp_le)
  ultimately show ?thesis
    by (simp only: r lo hi)
qed

lemma rnd64_subnormal_bound:
  assumes "0 < x" "bexp x < - 1022"
  shows "rnd64 x \<le> 2 powi (- 1022)"
proof -
  define u :: real where "u = 2 powi (- 1074)"
  have u: "0 < u" by (simp add: u_def)
  have x: "x \<noteq> 0" using assms by simp
  have "x < 2 powi (bexp x + 1)" using bexp_bounds [OF x] assms(1) by simp
  moreover have "(2::real) powi (bexp x + 1) \<le> 2 powi (- 1022)"
    using assms(2) by (intro power_int_increasing) simp_all
  ultimately have xb: "x < 2 powi (- 1022)" by linarith
  have hi: "(2::real) powi (- 1022) = of_int (2 ^ 52) * u"
    by (simp add: u_def power_int_minus)
  have "x \<le> of_int (2 ^ 52) * u"
    using xb by (simp only: hi)
  then have "x / u \<le> of_int (2 ^ 52)"
    using u by (simp only: pos_divide_le_eq)
  then have h: "rhe (x / u) \<le> 2 ^ 52"
    using rhe_mono [of "x / u" "of_int (2 ^ 52)"] by (simp only: rhe_of_int)
  have r: "rnd64 x = of_int (rhe (x / u)) * u"
    using assms(2) by (simp add: rnd64_def u_def Let_def max_def)
  have "of_int (rhe (x / u)) * u \<le> of_int (2 ^ 52) * u"
    using h u by (intro mult_right_mono) (simp_all only: of_int_le_iff less_imp_le)
  then show ?thesis
    by (simp only: r hi)
qed

lemma rnd64_mono_pos:
  assumes "0 < x" "x \<le> y"
  shows "rnd64 x \<le> rnd64 y"
proof -
  have y: "0 < y" using assms by simp
  have bx: "2 powi (bexp x) \<le> \<bar>x\<bar> \<and> \<bar>x\<bar> < 2 powi (bexp x + 1)"
    using assms by (intro bexp_bounds) simp
  have by': "2 powi (bexp y) \<le> \<bar>y\<bar> \<and> \<bar>y\<bar> < 2 powi (bexp y + 1)"
    using y by (intro bexp_bounds) simp
  have le: "bexp x \<le> bexp y"
    using powi_exp_unique [of "bexp x" "\<bar>x\<bar>" "bexp y"] bx by' assms by simp
  show ?thesis
  proof (cases "max (bexp x) (- 1022) = max (bexp y) (- 1022)")
    case True
    define u :: real where "u = 2 powi (max (bexp x) (- 1022) - 52)"
    have u: "0 < u" by (simp add: u_def)
    have "x / u \<le> y / u" using assms u by (simp add: divide_right_mono)
    then have "rhe (x / u) \<le> rhe (y / u)" by (rule rhe_mono)
    then have "of_int (rhe (x / u)) * u \<le> of_int (rhe (y / u)) * u"
      using u by (intro mult_right_mono) simp_all
    then show ?thesis
      using True by (simp add: rnd64_def Let_def u_def)
  next
    case False
    with le have n: "- 1022 \<le> bexp y" and lt: "bexp x < bexp y"
      by (simp_all add: max_def split: if_splits)
    have ly: "2 powi (bexp y) \<le> rnd64 y"
      using rnd64_pos_bounds [OF y n] by simp
    show ?thesis
    proof (cases "- 1022 \<le> bexp x")
      case True
      from lt have "(2::real) powi (bexp x + 1) \<le> 2 powi (bexp y)"
        by (intro power_int_increasing) simp_all
      with rnd64_pos_bounds [OF assms(1) True] ly show ?thesis
        by linarith
    next
      case s: False
      then have "rnd64 x \<le> 2 powi (- 1022)"
        using assms(1) by (intro rnd64_subnormal_bound) simp_all
      moreover have "(2::real) powi (- 1022) \<le> 2 powi (bexp y)"
        using n by (intro power_int_increasing) simp_all
      ultimately show ?thesis using ly by linarith
    qed
  qed
qed

lemma rnd64_mono: "x \<le> y \<Longrightarrow> rnd64 x \<le> rnd64 y"
proof -
  assume xy: "x \<le> y"
  consider "0 < x" | "x \<le> 0" "0 \<le> y" | "y < 0" by linarith
  then show ?thesis
  proof cases
    case 1
    then show ?thesis using xy by (rule rnd64_mono_pos)
  next
    case 2
    have "0 \<le> rnd64 (- x)" using 2 by (intro rnd64_nonneg) simp
    then have "rnd64 x \<le> 0" by (simp add: rnd64_minus)
    moreover have "0 \<le> rnd64 y" using 2 by (intro rnd64_nonneg)
    ultimately show ?thesis by simp
  next
    case 3
    have "rnd64 (- y) \<le> rnd64 (- x)"
      using 3 xy by (intro rnd64_mono_pos) simp_all
    then show ?thesis by (simp add: rnd64_minus)
  qed
qed

lemma rnd64_abs_bound:
  assumes "2 powi e \<le> \<bar>x\<bar>" "\<bar>x\<bar> < 2 powi (e + 1)" "- 1022 \<le> e"
  shows "\<bar>rnd64 x\<bar> \<le> 2 powi (e + 1)"
proof -
  have b: "bexp \<bar>x\<bar> = e"
    using assms(1,2) by (intro bexp_eqI) simp_all
  have "(0::real) < 2 powi e" by simp
  with assms(1) have p: "0 < \<bar>x\<bar>" by linarith
  have "rnd64 \<bar>x\<bar> \<le> 2 powi (e + 1)"
    using rnd64_pos_bounds [OF p] assms(3) by (simp add: b)
  moreover have "\<bar>rnd64 x\<bar> = rnd64 \<bar>x\<bar>"
  proof (cases "0 \<le> x")
    case True
    then show ?thesis using rnd64_nonneg [of x] by simp
  next
    case False
    then have "0 \<le> rnd64 (- x)" by (intro rnd64_nonneg) simp
    with False show ?thesis by (simp add: rnd64_minus abs_if)
  qed
  ultimately show ?thesis by simp
qed

lemma pow_1023: "(2::real) powi 1023 < huge"
proof -
  have "(2::real) powi 1023 = 2 ^ 1023"
    by (simp add: power_int_def)
  also have "\<dots> < 2 ^ 1024"
    by (rule power_strict_increasing) simp_all
  finally show ?thesis by (simp only: huge_def)
qed

lemma round64_finite:
  assumes "\<bar>rnd64 x\<bar> \<le> 2 powi 1023"
  shows "round64 x = Finite (rnd64 x)"
proof -
  from assms pow_1023 have "\<bar>rnd64 x\<bar> < huge" by linarith
  then show ?thesis
    by (simp add: round64_def Let_def abs_less_iff)
qed

text \<open>Rounding a number between \<open>2 powi (- 1022)\<close> and \<open>2 powi 1023\<close>.\<close>

lemma round64_eval:
  assumes "2 powi e \<le> \<bar>x\<bar>" "\<bar>x\<bar> < 2 powi (e + 1)" "- 1022 \<le> e" "e \<le> 1022"
  shows "round64 x = Finite (of_int (rhe (x / 2 powi (e - 52))) * 2 powi (e - 52))"
proof -
  have "\<bar>rnd64 x\<bar> \<le> 2 powi (e + 1)"
    using assms(1,2,3) by (rule rnd64_abs_bound)
  moreover have "(2::real) powi (e + 1) \<le> 2 powi 1023"
    using assms(4) by (intro power_int_increasing) simp_all
  ultimately have "round64 x = Finite (rnd64 x)"
    by (intro round64_finite) simp
  then show ?thesis
    by (simp only: rnd64_eval [OF assms(1,2,3)])
qed

lemma huge_pos: "0 < huge"
  by (simp add: huge_def)

lemma round64_0: "round64 0 = Finite 0"
  using huge_pos by (simp add: round64_def rnd64_0)

lemma fle_round64: "x \<le> y \<Longrightarrow> fle (round64 x) (round64 y)"
proof -
  assume "x \<le> y"
  then have "rnd64 x \<le> rnd64 y" by (rule rnd64_mono)
  then show ?thesis
    using huge_pos by (auto simp add: round64_def Let_def)
qed

lemma round64_1: "round64 1 = Finite 1"
  by (subst round64_eval [where e = 0]) (simp_all add: rhe_def power_int_minus)

lemma round64_samples:
  "round64 255 = Finite 255" "round64 (255 / 2) = Finite (255 / 2)"
  "round64 (255 / 4) = Finite (255 / 4)" "round64 (1 / 2) = Finite (1 / 2)"
proof -
  show "round64 255 = Finite 255"
    by (subst round64_eval [where e = 7]) (simp_all add: rhe_def power_int_minus)
  show "round64 (255 / 2) = Finite (255 / 2)"
    by (subst round64_eval [where e = 6]) (simp_all add: rhe_def power_int_minus)
  show "round64 (255 / 4) = Finite (255 / 4)"
    by (subst round64_eval [where e = 5]) (simp_all add: rhe_def power_int_minus)
  show "round64 (1 / 2) = Finite (1 / 2)"
    by (subst round64_eval [where e = "- 1"]) (simp_all add: rhe_def power_int_minus)
qed

text \<open>The largest float \<^verbatim>\<open>1.7976931348623157e308\<close>; twice it overflows.\<close>

lemma round64_max: "round64 max_double = Finite max_double"
proof -
  have e: "(2::real) powi 1023 \<le> \<bar>2 ^ 1024 - 2 ^ 971\<bar>"
    "\<bar>(2::real) ^ 1024 - 2 ^ 971\<bar> < 2 powi (1023 + 1)"
    by (simp_all add: power_int_def)
  have r: "rnd64 (2 ^ 1024 - 2 ^ 971) = 2 ^ 1024 - 2 ^ 971"
    by (subst rnd64_eval [OF e]) (simp_all add: rhe_def power_int_def)
  show ?thesis
    unfolding round64_def Let_def max_double_def r by (simp add: huge_def)
qed

lemma round64_overflow: "round64 (max_double + max_double) = PosInf"
proof -
  have e: "(2::real) powi 1024 \<le> \<bar>max_double + max_double\<bar>"
    "\<bar>max_double + max_double\<bar> < 2 powi (1024 + 1)"
    by (simp_all add: power_int_def max_double_def)
  have p: "0 < max_double + max_double"
    by (simp add: max_double_def)
  have "2 powi 1024 \<le> rnd64 (max_double + max_double)"
    using rnd64_pos_bounds [OF p] bexp_eqI [OF e] by simp
  then have "huge \<le> rnd64 (max_double + max_double)"
    by (simp add: huge_def power_int_def)
  then show ?thesis
    by (simp add: round64_def Let_def)
qed

text \<open>A multiple of a power of two with at most 53 bits is a float.\<close>

lemma rnd64_grid_lt:
  assumes "\<bar>k\<bar> < 2 ^ 53" "- 1074 \<le> j"
  shows "rnd64 (of_int k * 2 powi j) = of_int k * 2 powi j"
proof (cases "k = 0")
  case True
  then show ?thesis by (simp add: rnd64_0)
next
  case False
  define x :: real where "x = of_int k * 2 powi j"
  have x: "x \<noteq> 0" using False by (simp add: x_def)
  have "\<bar>x\<bar> = of_int \<bar>k\<bar> * 2 powi j"
    by (simp add: x_def abs_mult)
  also have "\<dots> < of_int (2 ^ 53) * 2 powi j"
    using assms(1) by (intro mult_strict_right_mono) (simp_all only: of_int_less_iff, simp)
  also have "\<dots> = 2 powi (j + 52 + 1)"
    by (simp add: power_int_add)
  finally have ub: "\<bar>x\<bar> < 2 powi (j + 52 + 1)" .
  have "bexp x \<le> j + 52"
    using powi_exp_unique [of "bexp x" "\<bar>x\<bar>" "j + 52"] bexp_bounds [OF x] ub by simp
  then have "max (bexp x) (- 1022) \<le> j + 52"
    using assms(2) by simp
  then obtain n :: nat where n: "j = max (bexp x) (- 1022) - 52 + int n"
    by (metis add.commute diff_le_eq zle_iff_zadd)
  define u :: real where "u = 2 powi (max (bexp x) (- 1022) - 52)"
  have u: "u \<noteq> 0" by (simp add: u_def)
  have "(2::real) powi j = u * 2 ^ n"
    by (subst n) (simp add: u_def power_int_add)
  then have xu: "x = of_int (k * 2 ^ n) * u"
    by (simp add: x_def)
  then have "x / u = of_int (k * 2 ^ n)"
    using u by simp
  then have "rhe (x / u) = k * 2 ^ n"
    by (simp only: rhe_of_int)
  then have r: "rnd64 x = of_int (k * 2 ^ n) * u"
    by (simp add: rnd64_def Let_def u_def)
  have "rnd64 x = x"
    by (rule trans [OF r xu [symmetric]])
  then show ?thesis
    by (simp only: x_def)
qed

lemma rnd64_grid:
  assumes "\<bar>k\<bar> \<le> 2 ^ 53" "- 1074 \<le> j"
  shows "rnd64 (of_int k * 2 powi j) = of_int k * 2 powi j"
proof (cases "\<bar>k\<bar> < 2 ^ 53")
  case True
  then show ?thesis using assms(2) by (rule rnd64_grid_lt)
next
  case False
  with assms(1) have "\<bar>k\<bar> = 2 ^ 53" by simp
  then consider "k = 2 ^ 53" | "k = - (2 ^ 53)" by (auto simp: abs_if split: if_splits)
  then have e: "of_int k * 2 powi j = of_int (k div 2) * (2::real) powi (j + 1)"
    by cases (simp_all add: power_int_add)
  have "\<bar>k div 2\<bar> < 2 ^ 53"
    using \<open>\<bar>k\<bar> = 2 ^ 53\<close> by (auto simp: abs_if split: if_splits)
  then have "rnd64 (of_int (k div 2) * 2 powi (j + 1)) = of_int (k div 2) * 2 powi (j + 1)"
    using assms(2) by (intro rnd64_grid_lt) simp_all
  then show ?thesis by (simp only: e)
qed







lemma round64_minus: "round64 (- x) = fneg (round64 x)"
  using huge_pos by (auto simp add: round64_def Let_def rnd64_minus)

lemma round64_cases:
  obtains "round64 x = Finite (rnd64 x)" "\<bar>rnd64 x\<bar> < huge"
  | "round64 x = PosInf" | "round64 x = NegInf"
proof -
  consider "huge \<le> rnd64 x" | "rnd64 x \<le> - huge" | "\<bar>rnd64 x\<bar> < huge"
    by linarith
  then show thesis
  proof cases
    case 1
    then have "round64 x = PosInf" by (simp add: round64_def Let_def)
    then show thesis by (rule that(2))
  next
    case 2
    then have "round64 x = PosInf \<or> round64 x = NegInf" by (simp add: round64_def Let_def)
    then show thesis using that(2,3) by blast
  next
    case 3
    then have "round64 x = Finite (rnd64 x)" by (simp add: round64_def Let_def abs_less_iff)
    then show thesis using 3 by (rule that(1))
  qed
qed

lemma round64_bounded:
  assumes "\<bar>x\<bar> \<le> 2 powi 1023"
  shows "round64 x = Finite (rnd64 x)" and "\<bar>rnd64 x\<bar> \<le> 2 powi 1023"
proof -
  define P :: real where "P = 2 powi 1023"
  have g: "rnd64 P = P"
    using rnd64_grid [of 1 1023] by (simp add: P_def)
  have "rnd64 x \<le> rnd64 P"
    using assms by (intro rnd64_mono) (simp add: P_def)
  moreover have "rnd64 (- P) \<le> rnd64 x"
    using assms by (intro rnd64_mono) (simp add: P_def)
  ultimately have "\<bar>rnd64 x\<bar> \<le> P"
    unfolding g rnd64_minus by linarith
  then show b: "\<bar>rnd64 x\<bar> \<le> 2 powi 1023"
    by (simp only: P_def)
  then show "round64 x = Finite (rnd64 x)"
    by (rule round64_finite)
qed

lemma is_double_rnd64: "is_double x \<Longrightarrow> rnd64 x = x"
  unfolding is_double_def by (rule round64_cases [of x]) simp_all

subsection \<open>Brightness and contrast\<close>

lemma render_loop_fields:
  "luts (render_loop hs tk) = luts tk \<and> widgets (render_loop hs tk) = widgets tk \<and>
   next_widget (render_loop hs tk) = next_widget tk \<and>
   render_log (render_loop hs tk) = render_log tk @ attached hs"
  by (induction hs tk rule: render_loop.induct) (simp_all add: render_def)

text \<open>
  What \<^verbatim>\<open>_on_cut_brightness_contrast\<close> does to the lookup-table manager of an attached
  z widget.
\<close>

lemma on_cut_brightness_contrast_lut:
  assumes "z_lut_manager self tk = Some lm"
    and "default_data_range (luts tk lm) = (data_low, data_high)"
  shows "luts (on_cut_brightness_contrast self tk) lm =
     (luts tk lm)\<lparr>use_default_range := False,
       data_range :=
         (fsub (adjusted_level data_low data_high (cut_brightness self))
               (adjusted_radius data_low data_high (cut_contrast self)),
          fadd (adjusted_level data_low data_high (cut_brightness self))
               (adjusted_radius data_low data_high (cut_contrast self)))\<rparr>"
  using assms
  by (auto simp add: z_lut_manager_def on_cut_brightness_contrast_def Let_def
      render_loop_fields set_data_range_def set_use_default_range_def
      adjusted_level_def adjusted_radius_def data_radius_def)

lemma on_cut_brightness_contrast_data_range:
  assumes "z_lut_manager self tk = Some lm"
    and "default_data_range (luts tk lm) = (data_low, data_high)"
    and "adjusted_level data_low data_high (cut_brightness self) = L"
    and "adjusted_radius data_low data_high (cut_contrast self) = R"
  shows "data_range (luts (on_cut_brightness_contrast self tk) lm) = (fsub L R, fadd L R)"
  using assms(3,4) on_cut_brightness_contrast_lut [OF assms(1,2)]
  by simp

lemma sample_z_lut_manager:
  "z_lut_manager sample_attached tk = Some (scalar_lut_manager (widgets tk 2))"
  "z_lut_manager sample_adjusted tk = Some (scalar_lut_manager (widgets tk 2))"
  "z_lut_manager (sample_attached\<lparr>cut_brightness := b\<rparr>) tk =
     Some (scalar_lut_manager (widgets tk 2))"
  "z_lut_manager (sample_attached\<lparr>cut_contrast := c\<rparr>) tk =
     Some (scalar_lut_manager (widgets tk 2))"
  by (simp_all add: z_lut_manager_def sample_adjusted_def sample_attached_def
      VolumeCutPlanes_def)

lemma sample_toolkit_lut:
  "scalar_lut_manager (widgets sample_toolkit 2) = 0"
  "default_data_range (luts sample_toolkit 0) = (Finite 0, Finite 255)"
  "scalar_lut_manager (widgets float_toolkit 2) = 0"
  "default_data_range (luts float_toolkit 0) = (Finite tenth, Finite three_tenths)"
  "scalar_lut_manager (widgets wide_toolkit 2) = 0"
  "default_data_range (luts wide_toolkit 0) = (Finite (- max_double), Finite max_double)"
  by (simp_all add: float_toolkit_def wide_toolkit_def sample_toolkit_def sample_widget_def
      sample_lut_def)

text \<open>
  C1. With the z widget attached and \<open>(data_low, data_high)\<close> the default data range of its
  lookup-table manager, the recomputation sets the manager's data range to
  \<open>(L - R, L + R)\<close>, where \<open>level = (data_low + data_high) / 2\<close>,
  \<open>radius = (data_high - data_low) / 2\<close>, \<open>L = level - radius * b\<close> and
  \<open>R = radius * pow(2, -c)\<close>, all in float arithmetic, for every brightness \<open>b\<close> and
  contrast \<open>c\<close> (so for those in \<open>[-1, 1]\<close>).
\<close>

theorem on_cut_brightness_contrast_range:
  assumes "z_lut_manager self tk = Some lm"
    and "default_data_range (luts tk lm) = (data_low, data_high)"
    and "cut_brightness self = b" and "cut_contrast self = c"
  shows "data_range (luts (on_cut_brightness_contrast self tk) lm) =
     (let level = fdiv (fadd data_low data_high) (Finite 2);
          radius = fdiv (fsub data_high data_low) (Finite 2);
          L = fsub level (fmul radius b);
          R = fmul radius (fpow 2 (fneg c))
      in (fsub L R, fadd L R))"
  using assms(3,4) on_cut_brightness_contrast_lut [OF assms(1,2)]
  by (simp add: Let_def adjusted_level_def adjusted_radius_def data_radius_def)

text \<open>Level and radius for the default data range \<open>(0, 255)\<close>.\<close>

lemma sample_levels:
  "data_radius (Finite 0) (Finite 255) = Finite (255 / 2)"
  "adjusted_level (Finite 0) (Finite 255) (Finite 0) = Finite (255 / 2)"
  "adjusted_level (Finite 0) (Finite 255) (Finite (1 / 2)) = Finite (255 / 4)"
  "adjusted_level (Finite 0) (Finite 255) (Finite 1) = Finite 0"
  "adjusted_level (Finite 0) (Finite 255) (Finite (- 1)) = Finite 255"
  "adjusted_radius (Finite 0) (Finite 255) (Finite 0) = Finite (255 / 2)"
  "adjusted_radius (Finite 0) (Finite 255) (Finite 1) = Finite (255 / 4)"
  "adjusted_radius (Finite 0) (Finite 255) (Finite (- 1)) = Finite 255"
proof -
  show d: "data_radius (Finite 0) (Finite 255) = Finite (255 / 2)"
    by (simp add: data_radius_def fsub_def round64_samples)
  have l: "fdiv (fadd (Finite 0) (Finite 255)) (Finite 2) = Finite (255 / 2)"
    by (simp add: round64_samples)
  show "adjusted_level (Finite 0) (Finite 255) (Finite 0) = Finite (255 / 2)"
    by (simp add: adjusted_level_def d l fsub_def round64_0 round64_samples)
  show "adjusted_level (Finite 0) (Finite 255) (Finite (1 / 2)) = Finite (255 / 4)"
    by (simp add: adjusted_level_def d l fsub_def round64_samples)
  show "adjusted_level (Finite 0) (Finite 255) (Finite 1) = Finite 0"
    by (simp add: adjusted_level_def d l fsub_def round64_0 round64_samples)
  show "adjusted_level (Finite 0) (Finite 255) (Finite (- 1)) = Finite 255"
    by (simp add: adjusted_level_def d l fsub_def round64_minus round64_samples)
  show "adjusted_radius (Finite 0) (Finite 255) (Finite 0) = Finite (255 / 2)"
    by (simp add: adjusted_radius_def d round64_1 round64_samples)
  show "adjusted_radius (Finite 0) (Finite 255) (Finite 1) = Finite (255 / 4)"
    by (simp add: adjusted_radius_def d powr_minus_divide round64_samples)
  have "round64 2 = Finite 2"
    by (subst round64_eval [where e = 1]) (simp_all add: rhe_def power_int_minus)
  then show "adjusted_radius (Finite 0) (Finite 255) (Finite (- 1)) = Finite 255"
    by (simp add: adjusted_radius_def d round64_samples)
qed

theorem on_cut_brightness_contrast_range_witness:
  "data_range (luts (on_cut_brightness_contrast sample_adjusted sample_toolkit) 0) =
     (Finite 0, Finite (255 / 2))"
proof -
  have z: "z_lut_manager sample_adjusted sample_toolkit = Some 0"
    by (simp add: sample_z_lut_manager sample_toolkit_lut)
  have b: "cut_brightness sample_adjusted = Finite (1 / 2)"
    and c: "cut_contrast sample_adjusted = Finite 1"
    by (simp_all add: sample_adjusted_def)
  have "data_range (luts (on_cut_brightness_contrast sample_adjusted sample_toolkit) 0) =
      (fsub (adjusted_level (Finite 0) (Finite 255) (Finite (1 / 2)))
            (adjusted_radius (Finite 0) (Finite 255) (Finite 1)),
       fadd (adjusted_level (Finite 0) (Finite 255) (Finite (1 / 2)))
            (adjusted_radius (Finite 0) (Finite 255) (Finite 1)))"
    using on_cut_brightness_contrast_range [OF z sample_toolkit_lut(2) b c]
    by (simp add: Let_def adjusted_level_def adjusted_radius_def data_radius_def)
  then show ?thesis
    by (simp add: sample_levels fsub_def round64_0 round64_samples)
qed

subsection \<open>A value the range check lets through\<close>

text \<open>
  C8, as the claim states it, fails for NaN, which is not in \<open>[-1, 1]\<close>: the range check
  rejects what compares below the lower or above the upper bound, and NaN compares
  neither way. Assigning NaN to \<^verbatim>\<open>cut_contrast\<close> on the object with the three widgets
  attached raises nothing, stores NaN and runs the recomputation, which writes the data
  range \<open>(NaN, NaN)\<close> to the lookup-table manager.
\<close>

theorem range_traits_reject_counterexample:
  "\<not> in_range (Finite (- 1)) (Finite 1) NaN \<and>
   (case set_cut_contrast NaN (sample_attached, sample_toolkit) of
      Inl e \<Rightarrow> False
    | Inr (self', tk') \<Rightarrow>
        cut_contrast self' = NaN \<and> data_range (luts tk' 0) = (NaN, NaN))"
proof -
  have z: "z_lut_manager (sample_attached\<lparr>cut_contrast := NaN\<rparr>) sample_toolkit = Some 0"
    by (simp add: sample_z_lut_manager sample_toolkit_lut)
  have l: "adjusted_level (Finite 0) (Finite 255)
      (cut_brightness (sample_attached\<lparr>cut_contrast := NaN\<rparr>)) = Finite (255 / 2)"
    by (simp add: sample_attached_def VolumeCutPlanes_def sample_levels)
  have r: "adjusted_radius (Finite 0) (Finite 255)
      (cut_contrast (sample_attached\<lparr>cut_contrast := NaN\<rparr>)) = NaN"
    by (simp add: adjusted_radius_def sample_levels)
  have "data_range (luts (on_cut_brightness_contrast (sample_attached\<lparr>cut_contrast := NaN\<rparr>)
      sample_toolkit) 0) = (NaN, NaN)"
    by (simp add: on_cut_brightness_contrast_data_range [OF z sample_toolkit_lut(2) l r] fsub_def)
  then show ?thesis
    by (simp add: in_range_def set_cut_contrast_def fne_def Let_def)
qed

subsection \<open>Brightness 0 and contrast 0\<close>

text \<open>
  The floats \<^verbatim>\<open>0.1\<close> and \<^verbatim>\<open>0.3\<close> step by step: \<^verbatim>\<open>0.1 + 0.3\<close> is \<^verbatim>\<open>0.4\<close> and its half
  \<^verbatim>\<open>0.2\<close>, but \<^verbatim>\<open>0.3 - 0.1\<close> is \<^verbatim>\<open>0.19999999999999998\<close>, its half
  \<^verbatim>\<open>0.09999999999999999\<close>, and \<^verbatim>\<open>0.2 - 0.09999999999999999\<close> is
  \<^verbatim>\<open>0.10000000000000002\<close>.
\<close>

lemma float_steps:
  "fadd (Finite tenth) (Finite three_tenths) = Finite (3602879701896397 / 2 ^ 53)"
  "fdiv (Finite (3602879701896397 / 2 ^ 53)) (Finite 2) = Finite (3602879701896397 / 2 ^ 54)"
  "fsub (Finite three_tenths) (Finite tenth) = Finite (7205759403792793 / 2 ^ 55)"
  "fdiv (Finite (7205759403792793 / 2 ^ 55)) (Finite 2) = Finite (7205759403792793 / 2 ^ 56)"
  "fsub (Finite (3602879701896397 / 2 ^ 54)) (Finite 0) = Finite (3602879701896397 / 2 ^ 54)"
  "fmul (Finite (7205759403792793 / 2 ^ 56)) (Finite 1) = Finite (7205759403792793 / 2 ^ 56)"
  "fsub (Finite (3602879701896397 / 2 ^ 54)) (Finite (7205759403792793 / 2 ^ 56)) =
     Finite (7205759403792795 / 2 ^ 56)"
  "fadd (Finite (3602879701896397 / 2 ^ 54)) (Finite (7205759403792793 / 2 ^ 56)) =
     Finite three_tenths"
  "fsub (Finite (7205759403792795 / 2 ^ 56)) (Finite (7205759403792793 / 2 ^ 56)) =
     Finite (1 / 2 ^ 55)"
  "fadd (Finite (7205759403792795 / 2 ^ 56)) (Finite (7205759403792793 / 2 ^ 56)) =
     Finite (3602879701896397 / 2 ^ 54)"
proof -
  show "fadd (Finite tenth) (Finite three_tenths) = Finite (3602879701896397 / 2 ^ 53)"
    unfolding fadd.simps tenth_def three_tenths_def
    by (subst round64_eval [where e = "- 2"]) (simp_all add: rhe_def power_int_minus)
  show "fdiv (Finite (3602879701896397 / 2 ^ 53)) (Finite 2) = Finite (3602879701896397 / 2 ^ 54)"
    unfolding fdiv.simps
    by (subst round64_eval [where e = "- 3"]) (simp_all add: rhe_def power_int_minus)
  show "fsub (Finite three_tenths) (Finite tenth) = Finite (7205759403792793 / 2 ^ 55)"
    unfolding fsub_def fneg.simps fadd.simps tenth_def three_tenths_def
    by (subst round64_eval [where e = "- 3"]) (simp_all add: rhe_def power_int_minus)
  show "fdiv (Finite (7205759403792793 / 2 ^ 55)) (Finite 2) = Finite (7205759403792793 / 2 ^ 56)"
    unfolding fdiv.simps
    by (subst round64_eval [where e = "- 4"]) (simp_all add: rhe_def power_int_minus)
  show "fsub (Finite (3602879701896397 / 2 ^ 54)) (Finite 0) = Finite (3602879701896397 / 2 ^ 54)"
    unfolding fsub_def fneg.simps fadd.simps
    by (subst round64_eval [where e = "- 3"]) (simp_all add: rhe_def power_int_minus)
  show "fmul (Finite (7205759403792793 / 2 ^ 56)) (Finite 1) = Finite (7205759403792793 / 2 ^ 56)"
    unfolding fmul.simps
    by (subst round64_eval [where e = "- 4"]) (simp_all add: rhe_def power_int_minus)
  show "fsub (Finite (3602879701896397 / 2 ^ 54)) (Finite (7205759403792793 / 2 ^ 56)) =
     Finite (7205759403792795 / 2 ^ 56)"
    unfolding fsub_def fneg.simps fadd.simps
    by (subst round64_eval [where e = "- 4"]) (simp_all add: rhe_def power_int_minus)
  show "fadd (Finite (3602879701896397 / 2 ^ 54)) (Finite (7205759403792793 / 2 ^ 56)) =
     Finite three_tenths"
    unfolding fadd.simps three_tenths_def
    by (subst round64_eval [where e = "- 2"]) (simp_all add: rhe_def power_int_minus)
  show "fsub (Finite (7205759403792795 / 2 ^ 56)) (Finite (7205759403792793 / 2 ^ 56)) =
     Finite (1 / 2 ^ 55)"
    unfolding fsub_def fneg.simps fadd.simps
    by (subst round64_eval [where e = "- 55"]) (simp_all add: rhe_def power_int_minus)
  show "fadd (Finite (7205759403792795 / 2 ^ 56)) (Finite (7205759403792793 / 2 ^ 56)) =
     Finite (3602879701896397 / 2 ^ 54)"
    unfolding fadd.simps
    by (subst round64_eval [where e = "- 3"]) (simp_all add: rhe_def power_int_minus)
qed

lemma is_double_tenths: "is_double tenth" "is_double three_tenths"
proof -
  show "is_double tenth"
    unfolding is_double_def tenth_def
    by (subst round64_eval [where e = "- 4"]) (simp_all add: rhe_def power_int_minus)
  show "is_double three_tenths"
    unfolding is_double_def three_tenths_def
    by (subst round64_eval [where e = "- 2"]) (simp_all add: rhe_def power_int_minus)
qed

lemma fpow_0: "fpow 2 (fneg (Finite 0)) = Finite 1"
  by (simp add: round64_1)

lemma float_levels:
  "adjusted_level (Finite tenth) (Finite three_tenths) (Finite 0) =
     Finite (3602879701896397 / 2 ^ 54)"
  "adjusted_level (Finite tenth) (Finite three_tenths) (Finite 1) =
     Finite (7205759403792795 / 2 ^ 56)"
  "adjusted_radius (Finite tenth) (Finite three_tenths) (Finite 0) =
     Finite (7205759403792793 / 2 ^ 56)"
proof -
  have d: "data_radius (Finite tenth) (Finite three_tenths) = Finite (7205759403792793 / 2 ^ 56)"
    by (simp only: data_radius_def float_steps)
  have z: "fmul (Finite (7205759403792793 / 2 ^ 56)) (Finite 0) = Finite 0"
    by (simp add: round64_0)
  show "adjusted_level (Finite tenth) (Finite three_tenths) (Finite 0) =
     Finite (3602879701896397 / 2 ^ 54)"
    by (simp only: adjusted_level_def d float_steps z)
  show "adjusted_level (Finite tenth) (Finite three_tenths) (Finite 1) =
     Finite (7205759403792795 / 2 ^ 56)"
    by (simp only: adjusted_level_def d float_steps)
  show "adjusted_radius (Finite tenth) (Finite three_tenths) (Finite 0) =
     Finite (7205759403792793 / 2 ^ 56)"
    by (simp only: adjusted_radius_def d fpow_0 float_steps)
qed

text \<open>
  C2, as the claim states it, fails on floats. With the default data range
  \<^verbatim>\<open>(0.1, 0.3)\<close>, brightness \<open>0\<close> and contrast \<open>0\<close>, the data range becomes
  \<^verbatim>\<open>(0.10000000000000002, 0.3)\<close>: the difference \<^verbatim>\<open>0.3 - 0.1\<close> is rounded, so the lower
  end is not \<^verbatim>\<open>0.1\<close> again.
\<close>

theorem on_cut_brightness_contrast_identity_counterexample:
  "is_double tenth \<and> is_double three_tenths \<and>
   cut_brightness sample_attached = Finite 0 \<and> cut_contrast sample_attached = Finite 0 \<and>
   z_lut_manager sample_attached float_toolkit = Some 0 \<and>
   default_data_range (luts float_toolkit 0) = (Finite tenth, Finite three_tenths) \<and>
   data_range (luts (on_cut_brightness_contrast sample_attached float_toolkit) 0) =
     (Finite (7205759403792795 / 2 ^ 56), Finite three_tenths) \<and>
   data_range (luts (on_cut_brightness_contrast sample_attached float_toolkit) 0) \<noteq>
     (Finite tenth, Finite three_tenths)"
proof -
  have z: "z_lut_manager sample_attached float_toolkit = Some 0"
    by (simp add: sample_z_lut_manager sample_toolkit_lut)
  have b: "cut_brightness sample_attached = Finite 0"
    and c: "cut_contrast sample_attached = Finite 0"
    by (simp_all add: sample_attached_def VolumeCutPlanes_def)
  have l: "adjusted_level (Finite tenth) (Finite three_tenths) (cut_brightness sample_attached) =
      Finite (3602879701896397 / 2 ^ 54)"
    by (simp only: b float_levels)
  have r: "adjusted_radius (Finite tenth) (Finite three_tenths) (cut_contrast sample_attached) =
      Finite (7205759403792793 / 2 ^ 56)"
    by (simp only: c float_levels)
  have d: "data_range (luts (on_cut_brightness_contrast sample_attached float_toolkit) 0) =
      (Finite (7205759403792795 / 2 ^ 56), Finite three_tenths)"
    by (simp only: on_cut_brightness_contrast_data_range [OF z sample_toolkit_lut(4) l r]
        float_steps)
  have "(7205759403792795 / 2 ^ 56 :: real) \<noteq> tenth"
    by (simp add: tenth_def)
  with d z b c is_double_tenths sample_toolkit_lut(4) show ?thesis
    by simp
qed

text \<open>
  When the two bounds, their sum and difference and the halves of these are floats, level
  and radius are computed without rounding, overflow or underflow.
\<close>

lemma exact_levels:
  assumes "is_double l" and "is_double h"
    and "is_double (l + h)" and "is_double (h - l)"
    and "is_double ((l + h) / 2)" and "is_double ((h - l) / 2)"
  shows "data_radius (Finite l) (Finite h) = Finite ((h - l) / 2)"
    and "adjusted_level (Finite l) (Finite h) (Finite 0) = Finite ((l + h) / 2)"
    and "adjusted_level (Finite l) (Finite h) (Finite 1) = Finite l"
    and "adjusted_level (Finite l) (Finite h) (Finite (- 1)) = Finite h"
    and "adjusted_radius (Finite l) (Finite h) (Finite 0) = Finite ((h - l) / 2)"
proof -
  have s: "round64 (l + h) = Finite (l + h)" "round64 (h - l) = Finite (h - l)"
    "round64 ((l + h) / 2) = Finite ((l + h) / 2)" "round64 ((h - l) / 2) = Finite ((h - l) / 2)"
    "round64 l = Finite l" "round64 h = Finite h"
    using assms by (simp_all only: is_double_def)
  have m: "round64 (- ((h - l) / 2)) = Finite (- ((h - l) / 2))"
    by (simp only: round64_minus s fneg.simps)
  have e: "(l + h) / 2 - (h - l) / 2 = l" "(l + h) / 2 + (h - l) / 2 = h"
    by (simp_all add: field_simps)
  show d: "data_radius (Finite l) (Finite h) = Finite ((h - l) / 2)"
    by (simp add: data_radius_def fsub_def s)
  have v: "fdiv (fadd (Finite l) (Finite h)) (Finite 2) = Finite ((l + h) / 2)"
    by (simp add: s)
  show "adjusted_level (Finite l) (Finite h) (Finite 0) = Finite ((l + h) / 2)"
    by (simp add: adjusted_level_def d v fsub_def round64_0 s)
  show "adjusted_level (Finite l) (Finite h) (Finite 1) = Finite l"
    by (simp add: adjusted_level_def d v fsub_def s e)
  show "adjusted_level (Finite l) (Finite h) (Finite (- 1)) = Finite h"
    by (simp add: adjusted_level_def d v fsub_def s m e)
  show "adjusted_radius (Finite l) (Finite h) (Finite 0) = Finite ((h - l) / 2)"
    by (simp add: adjusted_radius_def d round64_1 s)
qed

text \<open>
  C2, amended. When the bounds of the default data range, their sum \<open>data_low + data_high\<close>
  and difference \<open>data_high - data_low\<close>, and the halves of the sum and of the difference
  are floats, so that no step rounds, overflows or underflows (as for \<open>(0, 255)\<close> and every
  range of integers of moderate size), brightness \<open>0\<close> and contrast \<open>0\<close> set the data range
  to the default data range \<open>(data_low, data_high)\<close> itself.
\<close>

theorem on_cut_brightness_contrast_identity:
  assumes "z_lut_manager self tk = Some lm"
    and "default_data_range (luts tk lm) = (Finite data_low, Finite data_high)"
    and "cut_brightness self = Finite 0" and "cut_contrast self = Finite 0"
    and "is_double data_low" and "is_double data_high"
    and "is_double (data_low + data_high)" and "is_double (data_high - data_low)"
    and "is_double ((data_low + data_high) / 2)" and "is_double ((data_high - data_low) / 2)"
  shows "data_range (luts (on_cut_brightness_contrast self tk) lm) =
     (Finite data_low, Finite data_high)"
proof -
  note e = exact_levels [OF assms(5-10)]
  have l: "adjusted_level (Finite data_low) (Finite data_high) (cut_brightness self) =
      Finite ((data_low + data_high) / 2)"
    by (simp only: assms(3) e)
  have r: "adjusted_radius (Finite data_low) (Finite data_high) (cut_contrast self) =
      Finite ((data_high - data_low) / 2)"
    by (simp only: assms(4) e)
  have x: "(data_low + data_high) / 2 - (data_high - data_low) / 2 = data_low"
    "(data_low + data_high) / 2 + (data_high - data_low) / 2 = data_high"
    by (simp_all add: field_simps)
  have s: "round64 data_low = Finite data_low" "round64 data_high = Finite data_high"
    using assms(5,6) by (simp_all only: is_double_def)
  show ?thesis
    unfolding on_cut_brightness_contrast_data_range [OF assms(1,2) l r]
    by (simp add: fsub_def x s)
qed

lemma is_double_samples:
  "is_double 0" "is_double 255" "is_double (255 / 2)" "is_double (- (255 / 2))"
  "is_double (765 / 2)" "is_double (255 / 4)" "is_double (765 / 4)" "is_double 510"
  "is_double (- 255)"
proof -
  show "is_double 0" "is_double 255" "is_double (255 / 2)" "is_double (255 / 4)"
    by (simp_all add: is_double_def round64_0 round64_samples)
  then show "is_double (- (255 / 2))" "is_double (- 255)"
    by (simp_all add: is_double_def round64_minus)
  show "is_double (765 / 2)"
    unfolding is_double_def
    by (subst round64_eval [where e = 8]) (simp_all add: rhe_def power_int_minus)
  show "is_double (765 / 4)"
    unfolding is_double_def
    by (subst round64_eval [where e = 7]) (simp_all add: rhe_def power_int_minus)
  show "is_double 510"
    unfolding is_double_def
    by (subst round64_eval [where e = 8]) (simp_all add: rhe_def power_int_minus)
qed

theorem on_cut_brightness_contrast_identity_witness:
  "data_range (luts (on_cut_brightness_contrast sample_attached sample_toolkit) 0) =
     (Finite 0, Finite 255)"
proof -
  have z: "z_lut_manager sample_attached sample_toolkit = Some 0"
    by (simp add: sample_z_lut_manager sample_toolkit_lut)
  have b: "cut_brightness sample_attached = Finite 0"
    and c: "cut_contrast sample_attached = Finite 0"
    by (simp_all add: sample_attached_def VolumeCutPlanes_def)
  have s: "is_double (0 + 255)" "is_double (255 - 0)" "is_double ((0 + 255) / 2)"
    "is_double ((255 - 0) / 2)"
    by (simp_all add: is_double_samples)
  show ?thesis
    using on_cut_brightness_contrast_identity
      [OF z sample_toolkit_lut(2) b c is_double_samples(1,2) s]
    by simp
qed

subsection \<open>Brightness at its bounds\<close>

lemma range_center_exact:
  assumes "is_double (m - \<rho>)" and "is_double (m + \<rho>)"
  shows "range_center (fsub (Finite m) (Finite \<rho>), fadd (Finite m) (Finite \<rho>)) = Some m"
  using assms by (simp add: fsub_def is_double_def)

text \<open>
  C7, amended. When the bounds of the default data range, their sum and difference and
  the halves of these are floats, brightness \<open>1\<close> puts the level at \<open>data_low\<close> and brightness
  \<open>-1\<close> puts it at \<open>data_high\<close>, whatever the contrast: the data range is
  \<open>(data_low - R, data_low + R)\<close>, respectively \<open>(data_high - R, data_high + R)\<close>, in float
  arithmetic, with \<open>R\<close> the computed radius. Its centre is \<open>data_low\<close>, respectively
  \<open>data_high\<close>, when \<open>R\<close> is finite and these two ends are floats, so that they are not
  rounded.
\<close>

theorem on_cut_brightness_contrast_extreme:
  assumes "z_lut_manager self tk = Some lm"
    and "default_data_range (luts tk lm) = (Finite data_low, Finite data_high)"
    and "is_double data_low" and "is_double data_high"
    and "is_double (data_low + data_high)" and "is_double (data_high - data_low)"
    and "is_double ((data_low + data_high) / 2)" and "is_double ((data_high - data_low) / 2)"
  shows "let R = adjusted_radius (Finite data_low) (Finite data_high) (cut_contrast self);
             r = data_range (luts (on_cut_brightness_contrast self tk) lm)
         in (cut_brightness self = Finite 1 \<longrightarrow>
               r = (fsub (Finite data_low) R, fadd (Finite data_low) R) \<and>
               (\<forall>\<rho>. R = Finite \<rho> \<and> is_double (data_low - \<rho>) \<and> is_double (data_low + \<rho>) \<longrightarrow>
                  range_center r = Some data_low)) \<and>
            (cut_brightness self = Finite (- 1) \<longrightarrow>
               r = (fsub (Finite data_high) R, fadd (Finite data_high) R) \<and>
               (\<forall>\<rho>. R = Finite \<rho> \<and> is_double (data_high - \<rho>) \<and> is_double (data_high + \<rho>) \<longrightarrow>
                  range_center r = Some data_high))"
proof -
  note e = exact_levels [OF assms(3-8)]
  define R where "R = adjusted_radius (Finite data_low) (Finite data_high) (cut_contrast self)"
  have r1: "data_range (luts (on_cut_brightness_contrast self tk) lm) =
      (fsub (Finite data_low) R, fadd (Finite data_low) R)"
    if "cut_brightness self = Finite 1"
  proof -
    have l: "adjusted_level (Finite data_low) (Finite data_high) (cut_brightness self) =
        Finite data_low"
      by (simp only: that e)
    show ?thesis
      by (rule on_cut_brightness_contrast_data_range [OF assms(1,2) l R_def [symmetric]])
  qed
  have r2: "data_range (luts (on_cut_brightness_contrast self tk) lm) =
      (fsub (Finite data_high) R, fadd (Finite data_high) R)"
    if "cut_brightness self = Finite (- 1)"
  proof -
    have l: "adjusted_level (Finite data_low) (Finite data_high) (cut_brightness self) =
        Finite data_high"
      by (simp only: that e)
    show ?thesis
      by (rule on_cut_brightness_contrast_data_range [OF assms(1,2) l R_def [symmetric]])
  qed
  show ?thesis
    unfolding Let_def R_def [symmetric] using r1 r2 range_center_exact by auto
qed

theorem on_cut_brightness_contrast_extreme_witness:
  "data_range (luts (on_cut_brightness_contrast
      (sample_attached\<lparr>cut_brightness := Finite 1\<rparr>) sample_toolkit) 0) =
     (Finite (- (255 / 2)), Finite (255 / 2)) \<and>
   range_center (data_range (luts (on_cut_brightness_contrast
      (sample_attached\<lparr>cut_brightness := Finite 1\<rparr>) sample_toolkit) 0)) = Some 0 \<and>
   data_range (luts (on_cut_brightness_contrast
      (sample_attached\<lparr>cut_brightness := Finite (- 1)\<rparr>) sample_toolkit) 0) =
     (Finite (255 / 2), Finite (765 / 2)) \<and>
   range_center (data_range (luts (on_cut_brightness_contrast
      (sample_attached\<lparr>cut_brightness := Finite (- 1)\<rparr>) sample_toolkit) 0)) = Some 255"
proof -
  define dark where "dark = sample_attached\<lparr>cut_brightness := Finite 1\<rparr>"
  define bright where "bright = sample_attached\<lparr>cut_brightness := Finite (- 1)\<rparr>"
  have z: "z_lut_manager dark sample_toolkit = Some 0"
    "z_lut_manager bright sample_toolkit = Some 0"
    by (simp_all add: dark_def bright_def sample_z_lut_manager sample_toolkit_lut)
  have b: "cut_brightness dark = Finite 1" "cut_brightness bright = Finite (- 1)"
    by (simp_all add: dark_def bright_def)
  have R: "adjusted_radius (Finite 0) (Finite 255) (cut_contrast dark) = Finite (255 / 2)"
    "adjusted_radius (Finite 0) (Finite 255) (cut_contrast bright) = Finite (255 / 2)"
    by (simp_all add: dark_def bright_def sample_attached_def VolumeCutPlanes_def sample_levels)
  have s: "is_double (0 + 255)" "is_double (255 - 0)" "is_double ((0 + 255) / 2)"
    "is_double ((255 - 0) / 2)"
    by (simp_all add: is_double_samples)
  have d: "is_double (0 - 255 / 2)" "is_double (0 + 255 / 2)" "is_double (255 - 255 / 2)"
    "is_double (255 + 255 / 2)"
    by (simp_all add: is_double_samples)
  have f: "fsub (Finite 0) (Finite (255 / 2)) = Finite (- (255 / 2))"
    "fadd (Finite 0) (Finite (255 / 2)) = Finite (255 / 2)"
    "fsub (Finite 255) (Finite (255 / 2)) = Finite (255 / 2)"
    "fadd (Finite 255) (Finite (255 / 2)) = Finite (765 / 2)"
    using is_double_samples by (simp_all add: fsub_def is_double_def)
  note dark = on_cut_brightness_contrast_extreme
      [OF z(1) sample_toolkit_lut(2) is_double_samples(1,2) s, unfolded Let_def R(1) f]
  note bright = on_cut_brightness_contrast_extreme
      [OF z(2) sample_toolkit_lut(2) is_double_samples(1,2) s, unfolded Let_def R(2) f]
  from dark b(1) d(1,2)
  have "data_range (luts (on_cut_brightness_contrast dark sample_toolkit) 0) =
      (Finite (- (255 / 2)), Finite (255 / 2)) \<and>
    range_center (data_range (luts (on_cut_brightness_contrast dark sample_toolkit) 0)) = Some 0"
    by blast
  moreover from bright b(2) d(3,4)
  have "data_range (luts (on_cut_brightness_contrast bright sample_toolkit) 0) =
      (Finite (255 / 2), Finite (765 / 2)) \<and>
    range_center (data_range (luts (on_cut_brightness_contrast bright sample_toolkit) 0)) =
      Some 255"
    by blast
  ultimately show ?thesis
    unfolding dark_def bright_def by blast
qed

text \<open>
  C7, as the claim states it, fails on floats. With the default data range
  \<^verbatim>\<open>(0.1, 0.3)\<close>, brightness \<open>1\<close> and contrast \<open>0\<close>, the level is \<^verbatim>\<open>0.10000000000000002\<close>
  and the data range is \<^verbatim>\<open>(2.7755575615628914e-17, 0.2)\<close>; its centre is not \<^verbatim>\<open>0.1\<close>.
\<close>

theorem on_cut_brightness_contrast_extreme_counterexample:
  "is_double tenth \<and> is_double three_tenths \<and>
   z_lut_manager (sample_attached\<lparr>cut_brightness := Finite 1\<rparr>) float_toolkit = Some 0 \<and>
   default_data_range (luts float_toolkit 0) = (Finite tenth, Finite three_tenths) \<and>
   data_range (luts (on_cut_brightness_contrast
      (sample_attached\<lparr>cut_brightness := Finite 1\<rparr>) float_toolkit) 0) =
     (Finite (1 / 2 ^ 55), Finite (3602879701896397 / 2 ^ 54)) \<and>
   range_center (data_range (luts (on_cut_brightness_contrast
      (sample_attached\<lparr>cut_brightness := Finite 1\<rparr>) float_toolkit) 0)) \<noteq> Some tenth"
proof -
  have z: "z_lut_manager (sample_attached\<lparr>cut_brightness := Finite 1\<rparr>) float_toolkit = Some 0"
    by (simp add: sample_z_lut_manager sample_toolkit_lut)
  have l: "adjusted_level (Finite tenth) (Finite three_tenths)
      (cut_brightness (sample_attached\<lparr>cut_brightness := Finite 1\<rparr>)) =
      Finite (7205759403792795 / 2 ^ 56)"
    by (simp add: float_levels)
  have r: "adjusted_radius (Finite tenth) (Finite three_tenths)
      (cut_contrast (sample_attached\<lparr>cut_brightness := Finite 1\<rparr>)) =
      Finite (7205759403792793 / 2 ^ 56)"
    by (simp add: sample_attached_def VolumeCutPlanes_def float_levels)
  have d: "data_range (luts (on_cut_brightness_contrast
      (sample_attached\<lparr>cut_brightness := Finite 1\<rparr>) float_toolkit) 0) =
      (Finite (1 / 2 ^ 55), Finite (3602879701896397 / 2 ^ 54))"
    by (simp only: on_cut_brightness_contrast_data_range [OF z sample_toolkit_lut(4) l r]
        float_steps)
  have "range_center (Finite (1 / 2 ^ 55), Finite (3602879701896397 / 2 ^ 54)) \<noteq> Some tenth"
    by (simp add: tenth_def)
  with d z is_double_tenths sample_toolkit_lut(4) show ?thesis
    by simp
qed

subsection \<open>The computed range is an interval\<close>

lemma round64_not_NaN: "round64 x \<noteq> NaN"
  by (simp add: round64_def Let_def)

lemma fadd_Finite_not_NaN: "a \<noteq> NaN \<Longrightarrow> fadd a (Finite y) \<noteq> NaN"
  by (cases a) (simp_all add: round64_not_NaN)

lemma fdiv_2_not_NaN: "a \<noteq> NaN \<Longrightarrow> fdiv a (Finite 2) \<noteq> NaN"
  by (cases a) (simp_all add: round64_not_NaN)

lemma ordered_ends:
  assumes "L \<noteq> NaN" and "0 \<le> R"
  shows "fle (fsub L (Finite R)) (fadd L (Finite R))"
  using assms by (cases L) (simp_all add: fsub_def fle_round64)

lemma in_range_Finite:
  assumes "in_range (Finite lo) (Finite hi) v"
  obtains x where "v = Finite x" "lo \<le> x" "x \<le> hi"
  using assms by (cases v) (simp_all add: in_range_def)

text \<open>
  With a default data range at most \<open>2 powi 1023\<close> wide the radius does not overflow: it is
  a float between \<open>0\<close> and \<open>2 powi 1022\<close>.
\<close>

lemma data_radius_bounded:
  assumes "l \<le> h" and "h - l \<le> 2 powi 1023"
  obtains d where "data_radius (Finite l) (Finite h) = Finite d" "0 \<le> d" "d \<le> 2 powi 1022"
proof -
  define w where "w = rnd64 (h - l)"
  have a: "\<bar>h - l\<bar> \<le> 2 powi 1023"
    using assms by simp
  have w: "round64 (h - l) = Finite w" "\<bar>w\<bar> \<le> 2 powi 1023"
    unfolding w_def by (rule round64_bounded [OF a])+
  have w0: "0 \<le> w"
    unfolding w_def using assms(1) by (intro rnd64_nonneg) simp
  have "(2::real) powi 1023 = 2 * 2 powi 1022"
    using power_int_add [of "2::real" 1 1022] by simp
  with w(2) w0 have h: "w / 2 \<le> 2 powi 1022" "0 \<le> w / 2"
    by simp_all
  have "(2::real) powi 1022 \<le> 2 powi 1023"
    by (intro power_int_increasing) simp_all
  with h have b: "\<bar>w / 2\<bar> \<le> 2 powi 1023"
    by linarith
  have g: "rnd64 (2 powi 1022) = 2 powi 1022"
    using rnd64_grid [of 1 1022] by simp
  have "rnd64 (w / 2) \<le> rnd64 (2 powi 1022)"
    using h(1) by (rule rnd64_mono)
  then have u: "rnd64 (w / 2) \<le> 2 powi 1022"
    by (simp only: g)
  have "data_radius (Finite l) (Finite h) = round64 (w / 2)"
    by (simp add: data_radius_def fsub_def w(1))
  then have "data_radius (Finite l) (Finite h) = Finite (rnd64 (w / 2))"
    by (simp only: round64_bounded(1) [OF b])
  moreover have "0 \<le> rnd64 (w / 2)"
    using h(2) by (rule rnd64_nonneg)
  ultimately show thesis
    using u by (rule that)
qed

text \<open>For a contrast in \<open>[-1, 1]\<close> the power is a float between \<open>1 / 2\<close> and \<open>2\<close>.\<close>

lemma fpow_bounded:
  assumes "- 1 \<le> c" and "c \<le> 1"
  obtains p where "fpow 2 (fneg (Finite c)) = Finite p" "1 / 2 \<le> p" "p \<le> 2"
proof -
  have u: "2 powr (- c) \<le> (2::real)"
    using powr_mono [of "- c" 1 "2::real"] assms by simp
  have l: "1 / 2 \<le> 2 powr (- c)"
    using powr_mono [of "- 1" "- c" "2::real"] assms by (simp add: powr_minus_divide)
  have "(2::real) powi 1 \<le> 2 powi 1023"
    by (intro power_int_increasing) simp_all
  then have t: "(2::real) \<le> 2 powi 1023"
    by simp
  with u l have b: "\<bar>2 powr (- c)\<bar> \<le> 2 powi 1023"
    by linarith
  have g: "rnd64 2 = 2" "rnd64 (1 / 2) = 1 / 2"
    using rnd64_grid [of 1 1] rnd64_grid [of 1 "- 1"] by (simp_all add: power_int_minus)
  have "rnd64 (2 powr (- c)) \<le> rnd64 2" "rnd64 (1 / 2) \<le> rnd64 (2 powr (- c))"
    using u l by (intro rnd64_mono; simp)+
  then have "1 / 2 \<le> rnd64 (2 powr (- c))" "rnd64 (2 powr (- c)) \<le> 2"
    by (simp_all only: g)
  moreover have "fpow 2 (fneg (Finite c)) = Finite (rnd64 (2 powr (- c)))"
    by (simp add: round64_bounded(1) [OF b])
  ultimately show thesis
    by (intro that [of "rnd64 (2 powr (- c))"])
qed

lemma adjusted_radius_bounded:
  assumes "l \<le> h" and "h - l \<le> 2 powi 1023" and "- 1 \<le> c" and "c \<le> 1"
  obtains R where "adjusted_radius (Finite l) (Finite h) (Finite c) = Finite R" "0 \<le> R"
proof -
  from assms(1,2) obtain d
    where d: "data_radius (Finite l) (Finite h) = Finite d" "0 \<le> d" "d \<le> 2 powi 1022"
    by (rule data_radius_bounded)
  from assms(3,4) obtain p
    where p: "fpow 2 (fneg (Finite c)) = Finite p" "1 / 2 \<le> p" "p \<le> 2"
    by (rule fpow_bounded)
  have e: "(2::real) powi 1023 = 2 powi 1022 * 2"
    using power_int_add [of "2::real" 1022 1] by simp
  have "d * p \<le> 2 powi 1022 * 2"
    using d(2,3) p(2,3) by (intro mult_mono) simp_all
  moreover have n: "0 \<le> d * p"
    using d(2) p(2) by simp
  ultimately have "\<bar>d * p\<bar> \<le> 2 powi 1022 * 2"
    by linarith
  then have b: "\<bar>d * p\<bar> \<le> 2 powi 1023"
    by (simp only: e)
  have "adjusted_radius (Finite l) (Finite h) (Finite c) = Finite (rnd64 (d * p))"
    by (simp only: adjusted_radius_def d(1) p(1) fmul.simps round64_bounded(1) [OF b])
  moreover have "0 \<le> rnd64 (d * p)"
    using n by (rule rnd64_nonneg)
  ultimately show thesis
    by (rule that)
qed

lemma adjusted_level_not_NaN:
  assumes "l \<le> h" and "h - l \<le> 2 powi 1023" and "- 1 \<le> b" and "b \<le> 1"
  shows "adjusted_level (Finite l) (Finite h) (Finite b) \<noteq> NaN"
proof -
  from assms(1,2) obtain d
    where d: "data_radius (Finite l) (Finite h) = Finite d" "0 \<le> d" "d \<le> 2 powi 1022"
    by (rule data_radius_bounded)
  have "\<bar>d * b\<bar> \<le> d * 1"
    unfolding abs_mult using d(2) assms(3,4) by (intro mult_mono) simp_all
  moreover have "(2::real) powi 1022 \<le> 2 powi 1023"
    by (intro power_int_increasing) simp_all
  ultimately have q: "\<bar>d * b\<bar> \<le> 2 powi 1023"
    using d(3) by linarith
  have m: "fmul (data_radius (Finite l) (Finite h)) (Finite b) = Finite (rnd64 (d * b))"
    by (simp add: d(1) round64_bounded(1) [OF q])
  have "fdiv (fadd (Finite l) (Finite h)) (Finite 2) \<noteq> NaN"
    by (intro fdiv_2_not_NaN) (simp add: round64_not_NaN)
  then show ?thesis
    unfolding adjusted_level_def m fsub_def fneg.simps by (rule fadd_Finite_not_NaN)
qed

text \<open>
  C9, as the claim states it, fails when the radius overflows. With the default data range
  from \<^verbatim>\<open>-1.7976931348623157e308\<close> to \<^verbatim>\<open>1.7976931348623157e308\<close>, brightness \<open>0\<close> and
  contrast \<open>0\<close>, the difference of the bounds is \<^verbatim>\<open>inf\<close>, the level \<^verbatim>\<open>0.0 - inf * 0.0\<close> is
  NaN and the data range is \<open>(NaN, NaN)\<close>, whose ends are not in order.
\<close>

theorem on_cut_brightness_contrast_ordered_counterexample:
  "is_double (- max_double) \<and> is_double max_double \<and> - max_double \<le> max_double \<and>
   z_lut_manager sample_attached wide_toolkit = Some 0 \<and>
   default_data_range (luts wide_toolkit 0) = (Finite (- max_double), Finite max_double) \<and>
   cut_brightness sample_attached = Finite 0 \<and> cut_contrast sample_attached = Finite 0 \<and>
   data_range (luts (on_cut_brightness_contrast sample_attached wide_toolkit) 0) = (NaN, NaN) \<and>
   \<not> fle (fst (data_range (luts (on_cut_brightness_contrast sample_attached wide_toolkit) 0)))
         (snd (data_range (luts (on_cut_brightness_contrast sample_attached wide_toolkit) 0)))"
proof -
  have z: "z_lut_manager sample_attached wide_toolkit = Some 0"
    by (simp add: sample_z_lut_manager sample_toolkit_lut)
  have b: "cut_brightness sample_attached = Finite 0"
    and c: "cut_contrast sample_attached = Finite 0"
    by (simp_all add: sample_attached_def VolumeCutPlanes_def)
  have i: "is_double max_double" "is_double (- max_double)"
    by (simp_all add: is_double_def round64_minus round64_max)
  have p: "0 \<le> max_double"
    by (simp add: max_double_def)
  have "fsub (Finite max_double) (Finite (- max_double)) = PosInf"
    by (simp only: fsub_def fneg.simps fadd.simps minus_minus round64_overflow)
  then have d: "data_radius (Finite (- max_double)) (Finite max_double) = PosInf"
    by (simp add: data_radius_def)
  have l: "adjusted_level (Finite (- max_double)) (Finite max_double)
      (cut_brightness sample_attached) = NaN"
    by (simp add: adjusted_level_def d b fsub_def round64_0)
  have r: "adjusted_radius (Finite (- max_double)) (Finite max_double)
      (cut_contrast sample_attached) = PosInf"
    by (simp add: adjusted_radius_def d c round64_1)
  have "data_range (luts (on_cut_brightness_contrast sample_attached wide_toolkit) 0) =
      (NaN, NaN)"
    by (simp add: on_cut_brightness_contrast_data_range [OF z sample_toolkit_lut(6) l r] fsub_def)
  with z b c i p sample_toolkit_lut(6) show ?thesis
    by simp
qed

text \<open>
  C9, amended. For a default data range of finite floats with \<open>data_low \<le> data_high\<close> that is
  at most \<open>2 powi 1023\<close> wide, so that the radius does not overflow, and for brightness and
  contrast in \<open>[-1, 1]\<close>, the computed data range is an interval: neither end is NaN and
  the lower end is at most the upper end, because the computed radius is finite and not
  negative and rounding is monotone.
\<close>

theorem on_cut_brightness_contrast_ordered:
  assumes "z_lut_manager self tk = Some lm"
    and "default_data_range (luts tk lm) = (Finite data_low, Finite data_high)"
    and "data_low \<le> data_high" and "data_high - data_low \<le> 2 powi 1023"
    and "in_range (Finite (- 1)) (Finite 1) (cut_brightness self)"
    and "in_range (Finite (- 1)) (Finite 1) (cut_contrast self)"
  shows "fle (fst (data_range (luts (on_cut_brightness_contrast self tk) lm)))
             (snd (data_range (luts (on_cut_brightness_contrast self tk) lm)))"
proof -
  from assms(5) obtain b where b: "cut_brightness self = Finite b" "- 1 \<le> b" "b \<le> 1"
    by (rule in_range_Finite)
  from assms(6) obtain c where c: "cut_contrast self = Finite c" "- 1 \<le> c" "c \<le> 1"
    by (rule in_range_Finite)
  from assms(3,4) c(2,3) obtain R
    where R: "adjusted_radius (Finite data_low) (Finite data_high) (Finite c) = Finite R" "0 \<le> R"
    by (rule adjusted_radius_bounded)
  have L: "adjusted_level (Finite data_low) (Finite data_high) (Finite b) \<noteq> NaN"
    using assms(3,4) b(2,3) by (rule adjusted_level_not_NaN)
  have l: "adjusted_level (Finite data_low) (Finite data_high) (cut_brightness self) =
      adjusted_level (Finite data_low) (Finite data_high) (Finite b)"
    by (simp only: b(1))
  have r: "adjusted_radius (Finite data_low) (Finite data_high) (cut_contrast self) = Finite R"
    by (simp only: c(1) R(1))
  show ?thesis
    unfolding on_cut_brightness_contrast_data_range [OF assms(1,2) l r] fst_conv snd_conv
    using L R(2) by (rule ordered_ends)
qed

theorem on_cut_brightness_contrast_ordered_witness:
  "(0::real) \<le> 255 \<and> (255::real) - 0 \<le> 2 powi 1023 \<and>
   in_range (Finite (- 1)) (Finite 1) (cut_brightness sample_adjusted) \<and>
   in_range (Finite (- 1)) (Finite 1) (cut_contrast sample_adjusted) \<and>
   fle (fst (data_range (luts (on_cut_brightness_contrast sample_adjusted sample_toolkit) 0)))
       (snd (data_range (luts (on_cut_brightness_contrast sample_adjusted sample_toolkit) 0)))"
proof -
  have z: "z_lut_manager sample_adjusted sample_toolkit = Some 0"
    by (simp add: sample_z_lut_manager sample_toolkit_lut)
  have o: "(0::real) \<le> 255"
    by simp
  have "(2::real) powi 8 \<le> 2 powi 1023"
    by (intro power_int_increasing) simp_all
  then have w: "(255::real) - 0 \<le> 2 powi 1023"
    by simp
  have b: "in_range (Finite (- 1)) (Finite 1) (cut_brightness sample_adjusted)"
    and c: "in_range (Finite (- 1)) (Finite 1) (cut_contrast sample_adjusted)"
    by (simp_all add: in_range_def sample_adjusted_def)
  from on_cut_brightness_contrast_ordered [OF z sample_toolkit_lut(2) o w b c] o w b c
  show ?thesis
    by blast
qed

subsection \<open>Contrast narrows and widens the range\<close>

















end
